theory Spec2Isabelle
  imports Main "HOL-Library.Word"
begin

section \<open>The lofi stream server: browser chunks relayed into an ffmpeg child\<close>

text \<open>
  The server (\<^verbatim>\<open>server/index.js\<close>, run with \<^verbatim>\<open>node index.js\<close>) is a Node.js program: a function
  \<^verbatim>\<open>loadStreamConfig\<close>, a class \<^verbatim>\<open>StreamOutput\<close> that owns one ffmpeg child process, a
  module-level \<^verbatim>\<open>Map\<close> called \<^verbatim>\<open>streams\<close>, and per-connection event handlers that close
  over two variables, \<^verbatim>\<open>streamOutput\<close> and \<^verbatim>\<open>platform\<close>.

  Node runs every handler to completion before the next one starts, so each handler is a
  function from the state before it to the state after it. \<^verbatim>\<open>StreamOutput\<close> objects are
  shared by reference between a connection's closure and the \<^verbatim>\<open>streams\<close> map, so they live
  in an explicit heap and are named by their address.

  Left out are the parts that only print: the listeners on the child's standard output and
  standard error, and the messages of \<^verbatim>\<open>server.listen\<close>; and the \<^verbatim>\<open>SIGINT\<close> handler.
\<close>

subsection \<open>JavaScript string operations used by the configuration reader\<close>

text \<open>
  A string is the list of the bytes of its UTF-8 encoding, which is how the credential file
  is stored and what \<^verbatim>\<open>readFileSync(path, 'utf-8')\<close> decodes. The separators the source uses
  (line feed, \<^verbatim>\<open>=\<close>, \<^verbatim>\<open>#\<close>) are single bytes that occur in no longer encoding.
  \<^verbatim>\<open>s.split(sep)\<close> with a one-character separator always returns at least one piece
  (\<^verbatim>\<open>"".split("=")\<close> is \<^verbatim>\<open>[""]\<close>), and \<^verbatim>\<open>parts.join(sep)\<close> puts the separator between the
  pieces.
\<close>

fun js_split :: "char \<Rightarrow> string \<Rightarrow> string list" where
  "js_split sep [] = [[]]"
| "js_split sep (c # cs) =
     (if c = sep then [] # js_split sep cs
      else (case js_split sep cs of
              [] \<Rightarrow> [[c]]
            | piece # pieces \<Rightarrow> (c # piece) # pieces))"

fun js_join :: "string \<Rightarrow> string list \<Rightarrow> string" where
  "js_join sep [] = []"
| "js_join sep [piece] = piece"
| "js_join sep (piece # pieces) = piece @ sep @ js_join sep pieces"

text \<open>
  \<^verbatim>\<open>s.trim()\<close> removes the white space and line terminator characters of JavaScript at both
  ends: U+0009 to U+000D, U+0020, U+00A0, U+1680, U+2000 to U+200A, U+2028, U+2029, U+202F,
  U+205F, U+3000 and U+FEFF, given here by their encodings.
\<close>

definition js_white_space :: "string list" where
  "js_white_space =
     [[CHR 0x09], [CHR 0x0A], [CHR 0x0B], [CHR 0x0C], [CHR 0x0D], [CHR 0x20],
      [CHR 0xC2, CHR 0xA0],
      [CHR 0xE1, CHR 0x9A, CHR 0x80],
      [CHR 0xE2, CHR 0x80, CHR 0x80], [CHR 0xE2, CHR 0x80, CHR 0x81],
      [CHR 0xE2, CHR 0x80, CHR 0x82], [CHR 0xE2, CHR 0x80, CHR 0x83],
      [CHR 0xE2, CHR 0x80, CHR 0x84], [CHR 0xE2, CHR 0x80, CHR 0x85],
      [CHR 0xE2, CHR 0x80, CHR 0x86], [CHR 0xE2, CHR 0x80, CHR 0x87],
      [CHR 0xE2, CHR 0x80, CHR 0x88], [CHR 0xE2, CHR 0x80, CHR 0x89],
      [CHR 0xE2, CHR 0x80, CHR 0x8A],
      [CHR 0xE2, CHR 0x80, CHR 0xA8], [CHR 0xE2, CHR 0x80, CHR 0xA9],
      [CHR 0xE2, CHR 0x80, CHR 0xAF],
      [CHR 0xE2, CHR 0x81, CHR 0x9F],
      [CHR 0xE3, CHR 0x80, CHR 0x80],
      [CHR 0xEF, CHR 0xBB, CHR 0xBF]]"

text \<open>The string without one of the given encodings at its start, if it starts with one.\<close>

definition strip_one :: "string list \<Rightarrow> string \<Rightarrow> string option" where
  "strip_one encodings s =
     map_option (\<lambda>enc. drop (length enc) s)
       (find (\<lambda>enc. enc \<noteq> [] \<and> take (length enc) s = enc) encodings)"

function strip_all :: "string list \<Rightarrow> string \<Rightarrow> string" where
  "strip_all encodings s =
     (case strip_one encodings s of None \<Rightarrow> s | Some rest \<Rightarrow> strip_all encodings rest)"
  by pat_completeness auto
termination
proof (relation "measure (\<lambda>(encodings, s). length s)")
  show "wf (measure (\<lambda>(encodings, s). length s))" by simp
next
  fix encodings :: "string list" and s rest :: string
  assume "strip_one encodings s = Some rest"
  then obtain enc where e: "find (\<lambda>enc. enc \<noteq> [] \<and> take (length enc) s = enc) encodings = Some enc"
    and r: "rest = drop (length enc) s"
    by (auto simp: strip_one_def)
  from e have ne: "enc \<noteq> []" and t: "take (length enc) s = enc"
    by (auto simp: find_Some_iff)
  have "length (take (length enc) s) \<le> length s" by simp
  with t have "length enc \<le> length s" by simp
  with ne have "length (drop (length enc) s) < length s"
    by (cases enc) auto
  with r show "((encodings, rest), (encodings, s)) \<in> measure (\<lambda>(encodings, s). length s)"
    by simp
qed

definition trimStart :: "string \<Rightarrow> string" where
  "trimStart s = strip_all js_white_space s"

definition trimEnd :: "string \<Rightarrow> string" where
  "trimEnd s = rev (strip_all (map rev js_white_space) (rev s))"

definition trim :: "string \<Rightarrow> string" where
  "trim s = trimEnd (trimStart s)"

definition startsWith :: "string \<Rightarrow> char \<Rightarrow> bool" where
  "startsWith s c = (case s of [] \<Rightarrow> False | d # _ \<Rightarrow> d = c)"

subsection \<open>The data model\<close>

text \<open>A binary WebSocket frame is a buffer of bytes.\<close>

type_synonym chunk = "8 word list"

type_synonym addr = nat
type_synonym pid = nat

text \<open>
  The object that \<^verbatim>\<open>spawn\<close> returns is a child process with its three streams, named here
  by its index in the process table, or, when the process could not be created for lack of
  file descriptors, a child process object whose \<^verbatim>\<open>stdin\<close>, \<^verbatim>\<open>stdout\<close> and \<^verbatim>\<open>stderr\<close> are
  missing.
\<close>

datatype child_ref = Child pid | ChildWithoutStdio

text \<open>
  The fields of class \<^verbatim>\<open>StreamOutput\<close>, as its constructor sets them. \<^verbatim>\<open>ffmpeg\<close> is
  \<^verbatim>\<open>null\<close> or the child process object.
\<close>

record StreamOutput =
  platform :: string
  streamKey :: string
  streamUrl :: string
  ffmpeg :: "child_ref option"
  isStreaming :: bool

text \<open>
  What the program can do to, and read from, a child process object: the argument list it
  was spawned with, whether its standard input reports \<^verbatim>\<open>writable\<close>, the chunks written to
  its standard input (one list element per \<^verbatim>\<open>stdin.write\<close> call), whether \<^verbatim>\<open>stdin.end()\<close> was
  called, the signals sent with \<^verbatim>\<open>kill\<close>, and the \<^verbatim>\<open>StreamOutput\<close> that the \<^verbatim>\<open>close\<close> and
  \<^verbatim>\<open>error\<close> listeners registered in \<^verbatim>\<open>start\<close> have captured as \<^verbatim>\<open>this\<close>.
\<close>

record child =
  argv :: "string list"
  stdin_writable :: bool
  stdin_data :: "chunk list"
  stdin_ended :: bool
  signals :: "string list"
  listener :: addr

text \<open>One constructor per \<^verbatim>\<open>console.log\<close> / \<^verbatim>\<open>console.error\<close> call of the source.\<close>

datatype console_entry =
    StreamConfigNotFound string
  | AlreadyRunning string
  | StartingFfmpeg string string
  | FfmpegExited string "int option"
  | FfmpegError string string
  | StoppingFfmpeg string
  | BrowserConnected
  | ConfiguringStream string
  | InvalidConfigMessage string
  | BrowserDisconnected
  | WebSocketError string

text \<open>
  The global state: the heap of \<^verbatim>\<open>StreamOutput\<close> objects, the child processes spawned so
  far, the \<^verbatim>\<open>streams\<close> map (a JavaScript \<^verbatim>\<open>Map\<close> keeps its entries in insertion order, so it
  is an association list), and the console output.

  \<^verbatim>\<open>cleared\<close> is instrumentation, not program state: it records, in order, the address of
  the object each time the pair of assignments \<^verbatim>\<open>this.ffmpeg = null; this.isStreaming = false\<close>
  is executed. No handler reads it.

  \<^verbatim>\<open>crashed\<close> is set when an exception leaves a handler uncaught. Node then prints it and
  the process exits, so no handler runs in a state where it is set.
\<close>

record world =
  heap :: "StreamOutput list"
  procs :: "child list"
  streams :: "(string \<times> addr) list"
  console :: "console_entry list"
  cleared :: "addr list"
  crashed :: bool

definition init_world :: world where
  "init_world =
     \<lparr>heap = [], procs = [], streams = [], console = [], cleared = [], crashed = False\<rparr>"

text \<open>
  A reference is an index into the heap or the process table. JavaScript references never
  dangle; \<open>lookup\<close> makes the models total without reading a list out of range.
\<close>

definition lookup :: "'a list \<Rightarrow> nat \<Rightarrow> 'a option" where
  "lookup xs i = (if i < length xs then Some (xs ! i) else None)"

definition log :: "console_entry \<Rightarrow> world \<Rightarrow> world" where
  "log e w = w\<lparr>console := console w @ [e]\<rparr>"

subsection \<open>\<^verbatim>\<open>loadStreamConfig\<close>\<close>

text \<open>
  The environment the server reads: \<^verbatim>\<open>process.env.HOME\<close> as the template string renders it,
  and the files that exist, by path. \<^verbatim>\<open>readFileSync\<close> returns the content of a file that
  exists, or throws (the path is a directory, the file may not be read).
\<close>

datatype env_file = Readable string | Unreadable string

record env =
  HOME :: string
  files :: "string \<rightharpoonup> env_file"

type_synonym config = "string \<rightharpoonup> string"

definition envPath :: "env \<Rightarrow> string \<Rightarrow> string" where
  "envPath e p = HOME e @ ''/api-secrets/lofi-stream/platforms/'' @ p @ ''.env''"

text \<open>
  The body of the \<^verbatim>\<open>forEach\<close> callback: one line of the file updates the object. An
  assignment of a string to the property \<^verbatim>\<open>__proto__\<close> of an object is ignored.
\<close>

definition parse_line :: "config \<Rightarrow> string \<Rightarrow> config" where
  "parse_line cfg line =
     (if line \<noteq> [] \<and> \<not> startsWith line CHR ''#'' then
        (case js_split CHR ''='' line of
           [] \<Rightarrow> cfg
         | key # valueParts \<Rightarrow>
             if key \<noteq> [] \<and> valueParts \<noteq> [] \<and> trim key \<noteq> ''__proto__''
             then cfg(trim key \<mapsto> trim (js_join ''='' valueParts))
             else cfg)
      else cfg)"

definition parse_env :: "string \<Rightarrow> config" where
  "parse_env content = foldl parse_line Map.empty (js_split CHR 0x0A content)"

definition loadStreamConfig :: "env \<Rightarrow> string \<Rightarrow> world \<Rightarrow> (string + config option) \<times> world" where
  "loadStreamConfig e p w =
     (case files e (envPath e p) of
        None \<Rightarrow> (Inr None, log (StreamConfigNotFound (envPath e p)) w)
      | Some (Unreadable err) \<Rightarrow> (Inl err, w)
      | Some (Readable content) \<Rightarrow> (Inr (Some (parse_env content)), w))"

subsection \<open>Class \<^verbatim>\<open>StreamOutput\<close>\<close>

definition new_StreamOutput :: "string \<Rightarrow> string \<Rightarrow> string \<Rightarrow> StreamOutput" where
  "new_StreamOutput p k u =
     \<lparr>platform = p, streamKey = k, streamUrl = u, ffmpeg = None, isStreaming = False\<rparr>"

text \<open>The fixed argument list of the \<^verbatim>\<open>spawn('ffmpeg', [...])\<close> call.\<close>

definition ffmpeg_args :: "string \<Rightarrow> string list" where
  "ffmpeg_args rtmpUrl =
     [''-i'', ''pipe:0'',
      ''-c:v'', ''libx264'', ''-preset'', ''veryfast'', ''-tune'', ''zerolatency'',
      ''-b:v'', ''2500k'', ''-maxrate'', ''2500k'', ''-bufsize'', ''5000k'',
      ''-pix_fmt'', ''yuv420p'', ''-g'', ''60'',
      ''-c:a'', ''aac'', ''-b:a'', ''128k'', ''-ar'', ''44100'',
      ''-f'', ''flv'', rtmpUrl]"

text \<open>
  What the call of \<^verbatim>\<open>spawn\<close> does is decided outside the program. It returns a child
  process object with its streams, or a child process object without them, or it throws.
  A binary that cannot be executed is not reported by a throw: Node returns the child object
  with its streams and emits the child's \<^verbatim>\<open>error\<close> event later, which is why \<^verbatim>\<open>start\<close>
  registers a listener for it. When the process cannot be created because the file
  descriptors are used up, Node returns the child object before it has given it any stream.

  In that last case \<^verbatim>\<open>this.ffmpeg\<close> has been assigned when \<^verbatim>\<open>this.ffmpeg.stdout.on\<close> throws
  a \<^verbatim>\<open>TypeError\<close>: the listeners for \<^verbatim>\<open>close\<close> and \<^verbatim>\<open>error\<close> are not registered and
  \<^verbatim>\<open>isStreaming\<close> is not assigned.
\<close>

datatype spawn_result = SpawnReturns | SpawnReturnsWithoutStdio | SpawnThrows string

datatype outcome = Returned | Thrown string

definition TypeError :: string where
  "TypeError = ''TypeError''"

definition set_child :: "addr \<Rightarrow> child_ref option \<Rightarrow> bool \<Rightarrow> world \<Rightarrow> world" where
  "set_child a c r w =
     (case lookup (heap w) a of
        None \<Rightarrow> w
      | Some this \<Rightarrow> w\<lparr>heap := (heap w)[a := this\<lparr>ffmpeg := c, isStreaming := r\<rparr>]\<rparr>)"

text \<open>The two assignments \<^verbatim>\<open>this.ffmpeg = null; this.isStreaming = false\<close>.\<close>

definition clear_child :: "addr \<Rightarrow> world \<Rightarrow> world" where
  "clear_child a w = (set_child a None False w)\<lparr>cleared := cleared w @ [a]\<rparr>"

definition fresh_child :: "addr \<Rightarrow> string \<Rightarrow> child" where
  "fresh_child a rtmpUrl =
     \<lparr>argv = ffmpeg_args rtmpUrl, stdin_writable = True, stdin_data = [],
      stdin_ended = False, signals = [], listener = a\<rparr>"

definition start :: "spawn_result \<Rightarrow> addr \<Rightarrow> world \<Rightarrow> outcome \<times> world" where
  "start sp a w =
     (case lookup (heap w) a of
        None \<Rightarrow> (Returned, w)
      | Some this \<Rightarrow>
          (case ffmpeg this of
             Some _ \<Rightarrow> (Returned, log (AlreadyRunning (platform this)) w)
           | None \<Rightarrow>
               let rtmpUrl = streamUrl this @ ''/'' @ streamKey this;
                   w1 = log (StartingFfmpeg (platform this) (streamUrl this)) w
               in (case sp of
                     SpawnThrows e \<Rightarrow> (Thrown e, w1)
                   | SpawnReturnsWithoutStdio \<Rightarrow>
                       (Thrown TypeError,
                        w1\<lparr>heap := (heap w1)[a := this\<lparr>ffmpeg := Some ChildWithoutStdio\<rparr>]\<rparr>)
                   | SpawnReturns \<Rightarrow>
                       (Returned,
                        set_child a (Some (Child (length (procs w1)))) True
                          (w1\<lparr>procs := procs w1 @ [fresh_child a rtmpUrl]\<rparr>)))))"

text \<open>The listeners that \<^verbatim>\<open>start\<close> registers on the child for \<^verbatim>\<open>close\<close> and \<^verbatim>\<open>error\<close>.\<close>

definition ffmpeg_on_close :: "pid \<Rightarrow> int option \<Rightarrow> world \<Rightarrow> world" where
  "ffmpeg_on_close c code w =
     (case lookup (procs w) c of
        None \<Rightarrow> w
      | Some p \<Rightarrow>
          (case lookup (heap w) (listener p) of
             None \<Rightarrow> w
           | Some this \<Rightarrow>
               clear_child (listener p) (log (FfmpegExited (platform this) code) w)))"

definition ffmpeg_on_error :: "pid \<Rightarrow> string \<Rightarrow> world \<Rightarrow> world" where
  "ffmpeg_on_error c err w =
     (case lookup (procs w) c of
        None \<Rightarrow> w
      | Some p \<Rightarrow>
          (case lookup (heap w) (listener p) of
             None \<Rightarrow> w
           | Some this \<Rightarrow>
               clear_child (listener p) (log (FfmpegError (platform this) err) w)))"

text \<open>
  A child without streams has no listener for its \<^verbatim>\<open>error\<close> event, which Node emits once
  the handler that called \<^verbatim>\<open>spawn\<close> has returned. An \<^verbatim>\<open>error\<close> event without a listener is
  thrown as an uncaught exception.
\<close>

definition ffmpeg_error_unhandled :: "world \<Rightarrow> world" where
  "ffmpeg_error_unhandled w = w\<lparr>crashed := True\<rparr>"

definition stdin_write :: "pid \<Rightarrow> chunk \<Rightarrow> world \<Rightarrow> world" where
  "stdin_write c data w =
     (case lookup (procs w) c of
        None \<Rightarrow> w
      | Some p \<Rightarrow> w\<lparr>procs := (procs w)[c := p\<lparr>stdin_data := stdin_data p @ [data]\<rparr>]\<rparr>)"

text \<open>
  \<^verbatim>\<open>write\<close> and \<^verbatim>\<open>stop\<close> read \<^verbatim>\<open>this.ffmpeg.stdin\<close>. On a child without streams that
  read gives nothing, and the property access on it throws a \<^verbatim>\<open>TypeError\<close>. Both methods are
  only called outside of \<^verbatim>\<open>try\<close> blocks, so the exception is uncaught.
\<close>

definition "write" :: "addr \<Rightarrow> chunk \<Rightarrow> world \<Rightarrow> world" where
  "write a data w =
     (case lookup (heap w) a of
        None \<Rightarrow> w
      | Some this \<Rightarrow>
          (case ffmpeg this of
             None \<Rightarrow> w
           | Some ChildWithoutStdio \<Rightarrow> w\<lparr>crashed := True\<rparr>
           | Some (Child c) \<Rightarrow>
               (case lookup (procs w) c of
                  None \<Rightarrow> w
                | Some p \<Rightarrow> if stdin_writable p then stdin_write c data w else w)))"

text \<open>
  \<^verbatim>\<open>stdin.end()\<close> ends the stream, after which it no longer reports \<^verbatim>\<open>writable\<close>;
  \<^verbatim>\<open>kill('SIGTERM')\<close> sends the signal.
\<close>

definition stdin_end :: "pid \<Rightarrow> world \<Rightarrow> world" where
  "stdin_end c w =
     (case lookup (procs w) c of
        None \<Rightarrow> w
      | Some p \<Rightarrow> w\<lparr>procs := (procs w)[c := p\<lparr>stdin_writable := False, stdin_ended := True\<rparr>]\<rparr>)"

definition kill :: "pid \<Rightarrow> string \<Rightarrow> world \<Rightarrow> world" where
  "kill c sig w =
     (case lookup (procs w) c of
        None \<Rightarrow> w
      | Some p \<Rightarrow> w\<lparr>procs := (procs w)[c := p\<lparr>signals := signals p @ [sig]\<rparr>]\<rparr>)"

text \<open>Whether \<^verbatim>\<open>stop()\<close> throws: \<^verbatim>\<open>this.ffmpeg\<close> is a child without streams.\<close>

definition stop_throws :: "addr \<Rightarrow> world \<Rightarrow> bool" where
  "stop_throws a w =
     (case lookup (heap w) a of
        None \<Rightarrow> False
      | Some this \<Rightarrow> ffmpeg this = Some ChildWithoutStdio)"

definition stop :: "addr \<Rightarrow> world \<Rightarrow> world" where
  "stop a w =
     (case lookup (heap w) a of
        None \<Rightarrow> w
      | Some this \<Rightarrow>
          (case ffmpeg this of
             None \<Rightarrow> w
           | Some ChildWithoutStdio \<Rightarrow> (log (StoppingFfmpeg (platform this)) w)\<lparr>crashed := True\<rparr>
           | Some (Child c) \<Rightarrow>
               clear_child a
                 (kill c ''SIGTERM'' (stdin_end c (log (StoppingFfmpeg (platform this)) w)))))"

subsection \<open>The \<^verbatim>\<open>streams\<close> map and the health endpoint\<close>

text \<open>
  \<^verbatim>\<open>Map.prototype.set\<close> replaces the value of a key that is present, in place, and appends
  a new entry otherwise; \<^verbatim>\<open>Map.prototype.delete\<close> removes the entry of the key.
\<close>

fun map_set :: "'k \<Rightarrow> 'v \<Rightarrow> ('k \<times> 'v) list \<Rightarrow> ('k \<times> 'v) list" where
  "map_set k v [] = [(k, v)]"
| "map_set k v ((k', v') # m) = (if k' = k then (k, v) # m else (k', v') # map_set k v m)"

fun map_delete :: "'k \<Rightarrow> ('k \<times> 'v) list \<Rightarrow> ('k \<times> 'v) list" where
  "map_delete k [] = []"
| "map_delete k ((k', v') # m) = (if k' = k then map_delete k m else (k', v') # map_delete k m)"

definition map_keys :: "('k \<times> 'v) list \<Rightarrow> 'k list" where
  "map_keys m = map fst m"

definition map_values :: "('k \<times> 'v) list \<Rightarrow> 'v list" where
  "map_values m = map snd m"

definition map_get :: "('k \<times> 'v) list \<Rightarrow> 'k \<Rightarrow> 'v option" where
  "map_get m k = map_of m k"

text \<open>
  The body of the \<^verbatim>\<open>/health\<close> reply: the keys of \<^verbatim>\<open>streams\<close> and the number of its values
  whose \<^verbatim>\<open>isStreaming\<close> is true.
\<close>

record health_report =
  report_streams :: "string list"
  activeStreams :: nat

definition obj_isStreaming :: "world \<Rightarrow> addr \<Rightarrow> bool" where
  "obj_isStreaming w a = (case lookup (heap w) a of None \<Rightarrow> False | Some s \<Rightarrow> isStreaming s)"

definition health :: "world \<Rightarrow> health_report" where
  "health w =
     \<lparr>report_streams = map_keys (streams w),
      activeStreams = length (filter (obj_isStreaming w) (map_values (streams w)))\<rparr>"

subsection \<open>The connection handlers\<close>

text \<open>
  The frames the server sends: \<^verbatim>\<open>{ error: `No stream key found for ${platform}` }\<close> carries
  its message, \<^verbatim>\<open>{ status: 'streaming', platform }\<close> its platform.
\<close>

datatype frame = ErrorFrame string | StreamingFrame string

text \<open>
  A received message is binary data, or text. \<^verbatim>\<open>JSON.parse\<close> is library code: a text
  message is given by what \<^verbatim>\<open>JSON.parse(data.toString())\<close> followed by the read of
  \<^verbatim>\<open>config.platform\<close> does with it. Either that throws (the text is not JSON, or it is the
  JSON \<^verbatim>\<open>null\<close>), or it yields the \<^verbatim>\<open>platform\<close> property: a string, or nothing when the
  property is absent. (Truthy values of \<^verbatim>\<open>platform\<close> that are not strings are not modelled.)
\<close>

datatype text_message = NotConfig string | PlatformField "string option"

datatype message = Binary chunk | Text text_message

text \<open>
  The variables one connection's handlers close over, and the frames sent on its socket.
  The source's variable \<^verbatim>\<open>platform\<close> is \<open>conn_platform\<close> here, since \<open>platform\<close> is
  the field of \<open>StreamOutput\<close>.
\<close>

record connection =
  streamOutput :: "addr option"
  conn_platform :: string
  sent :: "frame list"

definition ws_send :: "frame \<Rightarrow> connection \<Rightarrow> connection" where
  "ws_send f c = c\<lparr>sent := sent c @ [f]\<rparr>"

definition on_connection :: "world \<Rightarrow> connection \<times> world" where
  "on_connection w =
     (\<lparr>streamOutput = None, conn_platform = ''youtube'', sent = []\<rparr>, log BrowserConnected w)"

text \<open>\<^verbatim>\<open>x || d\<close> on a string or \<^verbatim>\<open>undefined\<close>: the empty string and \<^verbatim>\<open>undefined\<close> are falsy.\<close>

definition or_default :: "string option \<Rightarrow> string \<Rightarrow> string" where
  "or_default x d = (case x of None \<Rightarrow> d | Some s \<Rightarrow> if s = [] then d else s)"

text \<open>
  The test \<^verbatim>\<open>!streamConfig || !streamConfig.STREAM_KEY\<close>: \<open>None\<close> when it holds (no object,
  no such property, or the empty string), otherwise the object and its key.
\<close>

definition with_stream_key :: "config option \<Rightarrow> (config \<times> string) option" where
  "with_stream_key streamConfig =
     (case streamConfig of
        None \<Rightarrow> None
      | Some cfg \<Rightarrow>
          (case cfg ''STREAM_KEY'' of
             None \<Rightarrow> None
           | Some k \<Rightarrow> if k = [] then None else Some (cfg, k)))"

text \<open>The \<^verbatim>\<open>try\<close> block of the message handler, entered for the first text message.\<close>

definition configure ::
  "env \<Rightarrow> spawn_result \<Rightarrow> text_message \<Rightarrow> connection \<times> world \<Rightarrow> connection \<times> world" where
  "configure e sp t cw =
     (case cw of (c, w) \<Rightarrow>
       (case t of
          NotConfig err \<Rightarrow> (c, log (InvalidConfigMessage err) w)
        | PlatformField x \<Rightarrow>
            let p = or_default x ''youtube'';
                c1 = c\<lparr>conn_platform := p\<rparr>;
                w1 = log (ConfiguringStream p) w
            in (case loadStreamConfig e p w1 of
                  (Inl err, w2) \<Rightarrow> (c1, log (InvalidConfigMessage err) w2)
                | (Inr streamConfig, w2) \<Rightarrow>
                 (case with_stream_key streamConfig of
                    None \<Rightarrow> (ws_send (ErrorFrame (''No stream key found for '' @ p)) c1, w2)
                  | Some (cfg, k) \<Rightarrow>
                      let a = length (heap w2);
                          w3 = w2\<lparr>heap := heap w2 @
                                 [new_StreamOutput p k
                                    (or_default (cfg ''STREAM_URL'')
                                       ''rtmp://a.rtmp.youtube.com/live2'')]\<rparr>;
                          c2 = c1\<lparr>streamOutput := Some a\<rparr>
                      in (case start sp a w3 of
                            (Thrown err, w4) \<Rightarrow> (c2, log (InvalidConfigMessage err) w4)
                          | (Returned, w4) \<Rightarrow>
                              (ws_send (StreamingFrame p) c2,
                               w4\<lparr>streams := map_set p a (streams w4)\<rparr>))))))"

fun on_message ::
  "env \<Rightarrow> spawn_result \<Rightarrow> message \<Rightarrow> connection \<times> world \<Rightarrow> connection \<times> world" where
  "on_message e sp (Text t) (c, w) =
     (if streamOutput c = None then configure e sp t (c, w) else (c, w))"
| "on_message e sp (Binary data) (c, w) =
     (case streamOutput c of None \<Rightarrow> (c, w) | Some a \<Rightarrow> (c, write a data w))"

text \<open>
  When \<^verbatim>\<open>streamOutput.stop()\<close> throws, the statement after it, \<^verbatim>\<open>streams.delete(platform)\<close>,
  is not executed.
\<close>

definition on_close :: "connection \<times> world \<Rightarrow> connection \<times> world" where
  "on_close cw =
     (case cw of (c, w) \<Rightarrow>
        let w1 = log BrowserDisconnected w
        in (case streamOutput c of
              None \<Rightarrow> (c, w1)
            | Some a \<Rightarrow>
                let w2 = stop a w1
                in if stop_throws a w1 then (c, w2)
                   else (c, w2\<lparr>streams := map_delete (conn_platform c) (streams w2)\<rparr>)))"

definition on_error :: "string \<Rightarrow> connection \<times> world \<Rightarrow> connection \<times> world" where
  "on_error err cw = (case cw of (c, w) \<Rightarrow> (c, log (WebSocketError err) w))"

subsection \<open>Running the handlers, and the states used as examples\<close>

text \<open>
  The messages of one connection are handled one after the other, in the order in which
  they arrive.
\<close>

fun on_messages ::
  "env \<Rightarrow> spawn_result \<Rightarrow> message list \<Rightarrow> connection \<times> world \<Rightarrow> connection \<times> world" where
  "on_messages e sp [] cw = cw"
| "on_messages e sp (m # ms) cw = on_messages e sp ms (on_message e sp m cw)"

text \<open>
  What \<^verbatim>\<open>loadStreamConfig\<close> followed by the stream-key test yields for a platform: no
  credentials (no file, or a file without a non-empty \<^verbatim>\<open>STREAM_KEY\<close>), an exception from
  reading the file, or the parsed object and its key. It does not depend on the state.
\<close>

datatype resolution = NoCredentials | ReadFails string | Credentials config string

definition credentials :: "env \<Rightarrow> string \<Rightarrow> resolution" where
  "credentials e p =
     (case files e (envPath e p) of
        None \<Rightarrow> NoCredentials
      | Some (Unreadable err) \<Rightarrow> ReadFails err
      | Some (Readable content) \<Rightarrow>
          (case with_stream_key (Some (parse_env content)) of
             None \<Rightarrow> NoCredentials
           | Some (cfg, k) \<Rightarrow> Credentials cfg k))"

text \<open>A heap holding one supervisor that has not been started.\<close>

definition demo_world :: world where
  "demo_world =
     init_world\<lparr>heap := [new_StreamOutput ''youtube'' ''abcd'' ''rtmp://a.rtmp.youtube.com/live2'']\<rparr>"

text \<open>
  An environment with credentials for two platforms, each file giving a stream key and no
  \<^verbatim>\<open>STREAM_URL\<close>, and the state of a connection that has configured \<^verbatim>\<open>youtube\<close> in it.
\<close>

definition demo_env :: env where
  "demo_env =
     \<lparr>HOME = ''/root'',
      files = [''/root/api-secrets/lofi-stream/platforms/youtube.env'' \<mapsto> Readable ''STREAM_KEY=abcd'',
               ''/root/api-secrets/lofi-stream/platforms/twitch.env'' \<mapsto> Readable ''STREAM_KEY=live_1'']\<rparr>"

definition demo_streaming :: "connection \<times> world" where
  "demo_streaming =
     on_message demo_env SpawnReturns (Text (PlatformField (Some ''youtube'')))
       (on_connection init_world)"

text \<open>
  A second connection configuring \<^verbatim>\<open>youtube\<close> after the first one, a connection configuring
  \<^verbatim>\<open>twitch\<close>, and a connection whose \<^verbatim>\<open>spawn\<close> call throws.
\<close>

definition demo_second :: "connection \<times> world" where
  "demo_second =
     on_message demo_env SpawnReturns (Text (PlatformField (Some ''youtube'')))
       (on_connection (snd demo_streaming))"

definition demo_twitch :: "connection \<times> world" where
  "demo_twitch =
     on_message demo_env SpawnReturns (Text (PlatformField (Some ''twitch'')))
       (on_connection init_world)"

definition demo_thrown :: "connection \<times> world" where
  "demo_thrown =
     on_message demo_env (SpawnThrows ''spawn EAGAIN'') (Text (PlatformField (Some ''youtube'')))
       (on_connection init_world)"

text \<open>A connection whose \<^verbatim>\<open>spawn\<close> call returns a child without streams.\<close>

definition demo_without_stdio :: "connection \<times> world" where
  "demo_without_stdio =
     on_message demo_env SpawnReturnsWithoutStdio (Text (PlatformField (Some ''youtube'')))
       (on_connection init_world)"

section \<open>Properties of the model\<close>

subsection \<open>References\<close>

lemma lookup_Some_iff: "lookup xs i = Some x \<longleftrightarrow> i < length xs \<and> xs ! i = x"
  by (auto simp: lookup_def)

subsection \<open>The \<^verbatim>\<open>streams\<close> map\<close>

lemma map_get_set_same: "map_get (map_set k v m) k = Some v"
  by (induction m) (auto simp: map_get_def)

lemma map_keys_set:
  "map_keys (map_set k v m) = (if k \<in> set (map_keys m) then map_keys m else map_keys m @ [k])"
  by (induction m) (force simp: map_keys_def)+

lemma map_keys_delete: "map_keys (map_delete k m) = filter (\<lambda>k'. k' \<noteq> k) (map_keys m)"
  by (induction m) (auto simp: map_keys_def)

lemma map_get_delete_same: "map_get (map_delete k m) k = None"
  by (induction m) (auto simp: map_get_def)

lemma map_get_None_iff: "map_get m k = None \<longleftrightarrow> k \<notin> set (map_keys m)"
  by (simp add: map_get_def map_keys_def map_of_eq_None_iff)

lemma count_list_distinct: "distinct xs \<Longrightarrow> x \<in> set xs \<Longrightarrow> count_list xs x = 1"
  by (induction xs) auto

lemma distinct_map_set: "distinct (map_keys m) \<Longrightarrow> distinct (map_keys (map_set k v m))"
  by (simp add: map_keys_set)

lemma distinct_map_delete: "distinct (map_keys m) \<Longrightarrow> distinct (map_keys (map_delete k m))"
  by (simp add: map_keys_delete)

subsection \<open>The supervisor\<close>

lemma heap_log [simp]: "heap (log e w) = heap w"
  by (simp add: log_def)

lemma procs_log [simp]: "procs (log e w) = procs w"
  by (simp add: log_def)

lemma clear_child_obj:
  "lookup (heap (clear_child a w)) a
     = map_option (\<lambda>t. t\<lparr>ffmpeg := None, isStreaming := False\<rparr>) (lookup (heap w) a)"
  by (simp add: clear_child_def set_child_def lookup_def)








lemma write_delivers:
  "lookup (heap w) a = Some this \<Longrightarrow> ffmpeg this = Some (Child c) \<Longrightarrow> lookup (procs w) c = Some p \<Longrightarrow>
   stdin_writable p \<Longrightarrow>
   write a data w = w\<lparr>procs := (procs w)[c := p\<lparr>stdin_data := stdin_data p @ [data]\<rparr>]\<rparr>"
  by (simp add: write_def stdin_write_def)


lemma streams_log [simp]: "streams (log e w) = streams w"
  by (simp add: log_def)

lemma cleared_log [simp]: "cleared (log e w) = cleared w"
  by (simp add: log_def)

lemma streams_clear_child [simp]: "streams (clear_child a w) = streams w"
  by (simp add: clear_child_def set_child_def split: option.splits)

lemma procs_clear_child [simp]: "procs (clear_child a w) = procs w"
  by (simp add: clear_child_def set_child_def split: option.splits)

lemma streams_stop [simp]: "streams (stop a w) = streams w"
  by (simp add: stop_def kill_def stdin_end_def split: option.splits child_ref.splits)

lemma streams_write [simp]: "streams (write a data w) = streams w"
  by (simp add: write_def stdin_write_def split: option.splits child_ref.splits)

lemma streams_ffmpeg_on_close [simp]: "streams (ffmpeg_on_close k code w) = streams w"
  by (simp add: ffmpeg_on_close_def split: option.splits)

lemma streams_ffmpeg_on_error [simp]: "streams (ffmpeg_on_error k err w) = streams w"
  by (simp add: ffmpeg_on_error_def split: option.splits)

lemma heap_stop_other: "b \<noteq> a \<Longrightarrow> lookup (heap (stop a w)) b = lookup (heap w) b"
  by (simp add: stop_def clear_child_def set_child_def kill_def stdin_end_def lookup_def log_def
      split: option.splits child_ref.splits)

lemma procs_stop_other:
  assumes "\<forall>t. lookup (heap w) a = Some t \<longrightarrow> ffmpeg t \<noteq> Some (Child k)"
  shows "lookup (procs (stop a w)) k = lookup (procs w) k"
proof (cases "lookup (heap w) a")
  case None
  then show ?thesis by (simp add: stop_def)
next
  case (Some t)
  show ?thesis
  proof (cases "ffmpeg t")
    case None
    then show ?thesis using Some by (simp add: stop_def)
  next
    case (Some r)
    then have "r \<noteq> Child k" using assms \<open>lookup (heap w) a = Some t\<close> by auto
    then show ?thesis
      using Some \<open>lookup (heap w) a = Some t\<close>
      by (cases r)
         (simp_all add: stop_def kill_def stdin_end_def lookup_def log_def split: option.splits)
  qed
qed

lemma cleared_stop: "cleared (stop a w) = cleared w \<or> cleared (stop a w) = cleared w @ [a]"
  by (simp add: stop_def clear_child_def set_child_def kill_def stdin_end_def log_def
      split: option.splits child_ref.splits)

lemma stop_running:
  assumes "lookup (heap w) a = Some this" and "ffmpeg this = Some (Child k)"
    and "lookup (procs w) k = Some p"
  shows "stop a w =
     w\<lparr>console := console w @ [StoppingFfmpeg (platform this)],
       procs := (procs w)[k := p\<lparr>stdin_writable := False, stdin_ended := True,
                                   signals := signals p @ [''SIGTERM'']\<rparr>],
       heap := (heap w)[a := this\<lparr>ffmpeg := None, isStreaming := False\<rparr>],
       cleared := cleared w @ [a]\<rparr>"
proof -
  from assms(3) have k: "k < length (procs w)" and p: "procs w ! k = p"
    by (simp_all add: lookup_Some_iff)
  show ?thesis
    using assms(1,2) k p
    by (simp add: stop_def clear_child_def set_child_def kill_def stdin_end_def log_def lookup_def)
qed

lemma ffmpeg_on_close_listener:
  assumes "lookup (procs w) k = Some p" and "lookup (heap w) (listener p) = Some this"
  shows "ffmpeg_on_close k code w =
     w\<lparr>console := console w @ [FfmpegExited (platform this) code],
       heap := (heap w)[listener p := this\<lparr>ffmpeg := None, isStreaming := False\<rparr>],
       cleared := cleared w @ [listener p]\<rparr>"
  using assms by (simp add: ffmpeg_on_close_def clear_child_def set_child_def log_def)

lemma ffmpeg_on_error_listener:
  assumes "lookup (procs w) k = Some p" and "lookup (heap w) (listener p) = Some this"
  shows "ffmpeg_on_error k err w =
     w\<lparr>console := console w @ [FfmpegError (platform this) err],
       heap := (heap w)[listener p := this\<lparr>ffmpeg := None, isStreaming := False\<rparr>],
       cleared := cleared w @ [listener p]\<rparr>"
  using assms by (simp add: ffmpeg_on_error_def clear_child_def set_child_def log_def)

subsection \<open>The message handler\<close>

lemma load_found:
  assumes "credentials e p = Credentials cfg k"
  shows "\<exists>sc. loadStreamConfig e p w = (Inr sc, w) \<and> with_stream_key sc = Some (cfg, k)"
proof (cases "files e (envPath e p)")
  case None
  then show ?thesis using assms by (simp add: credentials_def)
next
  case (Some f)
  then show ?thesis
    using assms
    by (cases f) (auto simp: credentials_def loadStreamConfig_def split: option.splits)
qed

lemma load_none:
  assumes "credentials e p = NoCredentials"
  shows "\<exists>sc. loadStreamConfig e p w
           = (Inr sc, if files e (envPath e p) = None
                      then log (StreamConfigNotFound (envPath e p)) w else w)
         \<and> with_stream_key sc = None"
proof (cases "files e (envPath e p)")
  case None
  then show ?thesis by (simp add: loadStreamConfig_def with_stream_key_def)
next
  case (Some f)
  then show ?thesis
    using assms
    by (cases f) (auto simp: credentials_def loadStreamConfig_def split: option.splits)
qed

lemma load_fails:
  assumes "credentials e p = ReadFails err"
  shows "loadStreamConfig e p w = (Inl err, w)"
proof (cases "files e (envPath e p)")
  case None
  then show ?thesis using assms by (simp add: credentials_def)
next
  case (Some f)
  then show ?thesis
    using assms
    by (cases f) (auto simp: credentials_def loadStreamConfig_def split: option.splits)
qed

lemma configure_accepts:
  assumes "credentials e (or_default x ''youtube'') = Credentials cfg k"
  shows "configure e SpawnReturns (PlatformField x) (c, w) =
     (c\<lparr>conn_platform := or_default x ''youtube'',
        streamOutput := Some (length (heap w)),
        sent := sent c @ [StreamingFrame (or_default x ''youtube'')]\<rparr>,
      w\<lparr>console := console w @
           [ConfiguringStream (or_default x ''youtube''),
            StartingFfmpeg (or_default x ''youtube'')
              (or_default (cfg ''STREAM_URL'') ''rtmp://a.rtmp.youtube.com/live2'')],
        heap := heap w @
           [\<lparr>platform = or_default x ''youtube'', streamKey = k,
             streamUrl = or_default (cfg ''STREAM_URL'') ''rtmp://a.rtmp.youtube.com/live2'',
             ffmpeg = Some (Child (length (procs w))), isStreaming = True\<rparr>],
        procs := procs w @
           [fresh_child (length (heap w))
              (or_default (cfg ''STREAM_URL'') ''rtmp://a.rtmp.youtube.com/live2'' @ ''/'' @ k)],
        streams := map_set (or_default x ''youtube'') (length (heap w)) (streams w)\<rparr>)"
proof -
  let ?p = "or_default x ''youtube''"
  obtain sc where l: "loadStreamConfig e ?p (log (ConfiguringStream ?p) w)
                        = (Inr sc, log (ConfiguringStream ?p) w)"
    and sc: "with_stream_key sc = Some (cfg, k)"
    using load_found [OF assms] by blast
  show ?thesis
    by (simp add: configure_def Let_def l sc)
       (simp add: start_def lookup_def new_StreamOutput_def set_child_def log_def ws_send_def)
qed

lemma configure_throws:
  assumes "credentials e (or_default x ''youtube'') = Credentials cfg k"
  shows "configure e (SpawnThrows err) (PlatformField x) (c, w) =
     (c\<lparr>conn_platform := or_default x ''youtube'', streamOutput := Some (length (heap w))\<rparr>,
      w\<lparr>console := console w @
           [ConfiguringStream (or_default x ''youtube''),
            StartingFfmpeg (or_default x ''youtube'')
              (or_default (cfg ''STREAM_URL'') ''rtmp://a.rtmp.youtube.com/live2''),
            InvalidConfigMessage err],
        heap := heap w @
           [new_StreamOutput (or_default x ''youtube'') k
              (or_default (cfg ''STREAM_URL'') ''rtmp://a.rtmp.youtube.com/live2'')]\<rparr>)"
proof -
  let ?p = "or_default x ''youtube''"
  obtain sc where l: "loadStreamConfig e ?p (log (ConfiguringStream ?p) w)
                        = (Inr sc, log (ConfiguringStream ?p) w)"
    and sc: "with_stream_key sc = Some (cfg, k)"
    using load_found [OF assms] by blast
  show ?thesis
    by (simp add: configure_def Let_def l sc)
       (simp add: start_def lookup_def new_StreamOutput_def set_child_def log_def ws_send_def)
qed

lemma configure_without_stdio:
  assumes "credentials e (or_default x ''youtube'') = Credentials cfg k"
  shows "configure e SpawnReturnsWithoutStdio (PlatformField x) (c, w) =
     (c\<lparr>conn_platform := or_default x ''youtube'', streamOutput := Some (length (heap w))\<rparr>,
      w\<lparr>console := console w @
           [ConfiguringStream (or_default x ''youtube''),
            StartingFfmpeg (or_default x ''youtube'')
              (or_default (cfg ''STREAM_URL'') ''rtmp://a.rtmp.youtube.com/live2''),
            InvalidConfigMessage TypeError],
        heap := heap w @
           [(new_StreamOutput (or_default x ''youtube'') k
              (or_default (cfg ''STREAM_URL'') ''rtmp://a.rtmp.youtube.com/live2''))
            \<lparr>ffmpeg := Some ChildWithoutStdio\<rparr>]\<rparr>)"
proof -
  let ?p = "or_default x ''youtube''"
  obtain sc where l: "loadStreamConfig e ?p (log (ConfiguringStream ?p) w)
                        = (Inr sc, log (ConfiguringStream ?p) w)"
    and sc: "with_stream_key sc = Some (cfg, k)"
    using load_found [OF assms] by blast
  show ?thesis
    by (simp add: configure_def Let_def l sc)
       (simp add: start_def lookup_def new_StreamOutput_def set_child_def log_def ws_send_def)
qed

lemma configure_rejects:
  assumes "credentials e (or_default x ''youtube'') = NoCredentials"
  shows "configure e sp (PlatformField x) (c, w) =
     (c\<lparr>conn_platform := or_default x ''youtube'',
        sent := sent c @ [ErrorFrame (''No stream key found for '' @ or_default x ''youtube'')]\<rparr>,
      w\<lparr>console := console w @ ConfiguringStream (or_default x ''youtube'') #
           (if files e (envPath e (or_default x ''youtube'')) = None
            then [StreamConfigNotFound (envPath e (or_default x ''youtube''))] else [])\<rparr>)"
proof -
  let ?p = "or_default x ''youtube''"
  obtain sc where l: "loadStreamConfig e ?p (log (ConfiguringStream ?p) w)
      = (Inr sc, if files e (envPath e ?p) = None
                 then log (StreamConfigNotFound (envPath e ?p)) (log (ConfiguringStream ?p) w)
                 else log (ConfiguringStream ?p) w)"
    and sc: "with_stream_key sc = None"
    using load_none [OF assms] by blast
  show ?thesis
    by (simp add: configure_def Let_def l sc) (simp add: log_def ws_send_def)
qed

lemma configure_read_fails:
  assumes "credentials e (or_default x ''youtube'') = ReadFails err"
  shows "configure e sp (PlatformField x) (c, w) =
     (c\<lparr>conn_platform := or_default x ''youtube''\<rparr>,
      w\<lparr>console := console w @
           [ConfiguringStream (or_default x ''youtube''), InvalidConfigMessage err]\<rparr>)"
  by (simp add: configure_def Let_def load_fails [OF assms]) (simp add: log_def)

lemma configure_distinct:
  assumes "distinct (map_keys (streams w))"
  shows "distinct (map_keys (streams (snd (configure e sp t (c, w)))))"
proof (cases t)
  case (NotConfig err)
  then show ?thesis using assms by (simp add: configure_def)
next
  case (PlatformField x)
  show ?thesis
  proof (cases "credentials e (or_default x ''youtube'')")
    case NoCredentials
    then show ?thesis using assms PlatformField by (simp add: configure_rejects)
  next
    case (ReadFails err)
    then show ?thesis using assms PlatformField by (simp add: configure_read_fails)
  next
    case ck: (Credentials cfg k)
    show ?thesis
    proof (cases sp)
      case SpawnReturns
      then show ?thesis
        using assms PlatformField by (simp add: configure_accepts [OF ck] distinct_map_set)
    next
      case SpawnReturnsWithoutStdio
      then show ?thesis
        using assms PlatformField by (simp add: configure_without_stdio [OF ck])
    next
      case (SpawnThrows err)
      then show ?thesis
        using assms PlatformField by (simp add: configure_throws [OF ck])
    qed
  qed
qed

lemma on_message_distinct:
  assumes "distinct (map_keys (streams w))"
  shows "distinct (map_keys (streams (snd (on_message e sp m (c, w)))))"
proof (cases m)
  case (Binary data)
  then show ?thesis using assms by (simp split: option.splits)
next
  case (Text t)
  then show ?thesis using assms configure_distinct [OF assms, of e sp t c] by simp
qed

lemma on_close_distinct:
  "distinct (map_keys (streams w)) \<Longrightarrow> distinct (map_keys (streams (snd (on_close (c, w)))))"
  by (simp add: on_close_def Let_def distinct_map_delete split: option.splits)

lemma on_error_distinct:
  "distinct (map_keys (streams w)) \<Longrightarrow> distinct (map_keys (streams (snd (on_error err (c, w)))))"
  by (simp add: on_error_def)

lemma stop_throws_log [simp]: "stop_throws a (log e w) = stop_throws a w"
  by (simp add: stop_throws_def)

lemma on_close_streaming:
  "streamOutput c = Some a \<Longrightarrow> \<not> stop_throws a w \<Longrightarrow>
   on_close (c, w) =
     (c, (stop a (log BrowserDisconnected w))
            \<lparr>streams := map_delete (conn_platform c) (streams w)\<rparr>)"
  by (simp add: on_close_def Let_def)

subsection \<open>The example states\<close>

lemma trim_example:
  "trim ([CHR 0xEF, CHR 0xBB, CHR 0xBF] @ '' a b'' @ [CHR 0xC2, CHR 0xA0, CHR 0x0D]) = ''a b''"
  by (simp add: trim_def trimStart_def trimEnd_def strip_one_def js_white_space_def)

lemma parse_line_proto: "parse_line cfg ''__proto__=x'' = cfg"
  by (simp add: parse_line_def startsWith_def trim_def trimStart_def trimEnd_def strip_one_def
      js_white_space_def)

lemma demo_parse: "parse_env ''STREAM_KEY=abcd'' = [''STREAM_KEY'' \<mapsto> ''abcd'']"
  by (simp add: parse_env_def parse_line_def startsWith_def trim_def trimStart_def trimEnd_def
      strip_one_def js_white_space_def)

lemma demo_credentials_youtube:
  "credentials demo_env ''youtube'' = Credentials [''STREAM_KEY'' \<mapsto> ''abcd''] ''abcd''"
  by (simp add: credentials_def demo_env_def envPath_def demo_parse with_stream_key_def)

lemma demo_credentials_vimeo: "credentials demo_env ''vimeo'' = NoCredentials"
  by (simp add: credentials_def demo_env_def envPath_def with_stream_key_def)

lemma demo_streaming_eq:
  "demo_streaming =
     (\<lparr>streamOutput = Some 0, conn_platform = ''youtube'', sent = [StreamingFrame ''youtube'']\<rparr>,
      \<lparr>heap = [\<lparr>platform = ''youtube'', streamKey = ''abcd'',
                streamUrl = ''rtmp://a.rtmp.youtube.com/live2'', ffmpeg = Some (Child 0),
                isStreaming = True\<rparr>],
       procs = [fresh_child 0 ''rtmp://a.rtmp.youtube.com/live2/abcd''],
       streams = [(''youtube'', 0)],
       console = [BrowserConnected, ConfiguringStream ''youtube'',
                  StartingFfmpeg ''youtube'' ''rtmp://a.rtmp.youtube.com/live2''],
       cleared = [], crashed = False\<rparr>)"
proof -
  have c: "credentials demo_env (or_default (Some ''youtube'') ''youtube'')
             = Credentials [''STREAM_KEY'' \<mapsto> ''abcd''] ''abcd''"
    by (simp add: or_default_def demo_credentials_youtube)
  show ?thesis
    by (simp add: demo_streaming_def on_connection_def configure_accepts [OF c])
       (simp add: or_default_def init_world_def log_def)
qed

lemma demo_second_eq:
  "demo_second =
     (\<lparr>streamOutput = Some 1, conn_platform = ''youtube'', sent = [StreamingFrame ''youtube'']\<rparr>,
      \<lparr>heap = [\<lparr>platform = ''youtube'', streamKey = ''abcd'',
                streamUrl = ''rtmp://a.rtmp.youtube.com/live2'', ffmpeg = Some (Child 0),
                isStreaming = True\<rparr>,
               \<lparr>platform = ''youtube'', streamKey = ''abcd'',
                streamUrl = ''rtmp://a.rtmp.youtube.com/live2'', ffmpeg = Some (Child 1),
                isStreaming = True\<rparr>],
       procs = [fresh_child 0 ''rtmp://a.rtmp.youtube.com/live2/abcd'',
                fresh_child 1 ''rtmp://a.rtmp.youtube.com/live2/abcd''],
       streams = [(''youtube'', 1)],
       console = [BrowserConnected, ConfiguringStream ''youtube'',
                  StartingFfmpeg ''youtube'' ''rtmp://a.rtmp.youtube.com/live2'',
                  BrowserConnected, ConfiguringStream ''youtube'',
                  StartingFfmpeg ''youtube'' ''rtmp://a.rtmp.youtube.com/live2''],
       cleared = [], crashed = False\<rparr>)"
proof -
  have c: "credentials demo_env (or_default (Some ''youtube'') ''youtube'')
             = Credentials [''STREAM_KEY'' \<mapsto> ''abcd''] ''abcd''"
    by (simp add: or_default_def demo_credentials_youtube)
  show ?thesis
    by (simp add: demo_second_def on_connection_def configure_accepts [OF c])
       (simp add: or_default_def demo_streaming_eq log_def)
qed

lemma demo_parse_twitch: "parse_env ''STREAM_KEY=live_1'' = [''STREAM_KEY'' \<mapsto> ''live_1'']"
  by (simp add: parse_env_def parse_line_def startsWith_def trim_def trimStart_def trimEnd_def
      strip_one_def js_white_space_def)

lemma demo_credentials_twitch:
  "credentials demo_env ''twitch'' = Credentials [''STREAM_KEY'' \<mapsto> ''live_1''] ''live_1''"
  by (simp add: credentials_def demo_env_def envPath_def demo_parse_twitch with_stream_key_def)

lemma demo_twitch_eq:
  "demo_twitch =
     (\<lparr>streamOutput = Some 0, conn_platform = ''twitch'', sent = [StreamingFrame ''twitch'']\<rparr>,
      \<lparr>heap = [\<lparr>platform = ''twitch'', streamKey = ''live_1'',
                streamUrl = ''rtmp://a.rtmp.youtube.com/live2'', ffmpeg = Some (Child 0),
                isStreaming = True\<rparr>],
       procs = [fresh_child 0 ''rtmp://a.rtmp.youtube.com/live2/live_1''],
       streams = [(''twitch'', 0)],
       console = [BrowserConnected, ConfiguringStream ''twitch'',
                  StartingFfmpeg ''twitch'' ''rtmp://a.rtmp.youtube.com/live2''],
       cleared = [], crashed = False\<rparr>)"
proof -
  have c: "credentials demo_env (or_default (Some ''twitch'') ''youtube'')
             = Credentials [''STREAM_KEY'' \<mapsto> ''live_1''] ''live_1''"
    by (simp add: or_default_def demo_credentials_twitch)
  show ?thesis
    by (simp add: demo_twitch_def on_connection_def configure_accepts [OF c])
       (simp add: or_default_def init_world_def log_def)
qed

lemma demo_thrown_eq:
  "demo_thrown =
     (\<lparr>streamOutput = Some 0, conn_platform = ''youtube'', sent = []\<rparr>,
      \<lparr>heap = [\<lparr>platform = ''youtube'', streamKey = ''abcd'',
                streamUrl = ''rtmp://a.rtmp.youtube.com/live2'', ffmpeg = None,
                isStreaming = False\<rparr>],
       procs = [],
       streams = [],
       console = [BrowserConnected, ConfiguringStream ''youtube'',
                  StartingFfmpeg ''youtube'' ''rtmp://a.rtmp.youtube.com/live2'',
                  InvalidConfigMessage ''spawn EAGAIN''],
       cleared = [], crashed = False\<rparr>)"
proof -
  have c: "credentials demo_env (or_default (Some ''youtube'') ''youtube'')
             = Credentials [''STREAM_KEY'' \<mapsto> ''abcd''] ''abcd''"
    by (simp add: or_default_def demo_credentials_youtube)
  show ?thesis
    by (simp add: demo_thrown_def on_connection_def configure_throws [OF c])
       (simp add: or_default_def init_world_def log_def new_StreamOutput_def)
qed

lemma demo_without_stdio_eq:
  "demo_without_stdio =
     (\<lparr>streamOutput = Some 0, conn_platform = ''youtube'', sent = []\<rparr>,
      \<lparr>heap = [\<lparr>platform = ''youtube'', streamKey = ''abcd'',
                streamUrl = ''rtmp://a.rtmp.youtube.com/live2'',
                ffmpeg = Some ChildWithoutStdio, isStreaming = False\<rparr>],
       procs = [],
       streams = [],
       console = [BrowserConnected, ConfiguringStream ''youtube'',
                  StartingFfmpeg ''youtube'' ''rtmp://a.rtmp.youtube.com/live2'',
                  InvalidConfigMessage TypeError],
       cleared = [], crashed = False\<rparr>)"
proof -
  have c: "credentials demo_env (or_default (Some ''youtube'') ''youtube'')
             = Credentials [''STREAM_KEY'' \<mapsto> ''abcd''] ''abcd''"
    by (simp add: or_default_def demo_credentials_youtube)
  show ?thesis
    by (simp add: demo_without_stdio_def on_connection_def configure_without_stdio [OF c])
       (simp add: or_default_def init_world_def log_def new_StreamOutput_def)
qed

section \<open>The claims\<close>

text \<open>
  C1 (as stated, it fails). The claim: when the child cannot be spawned, \<^verbatim>\<open>start()\<close> returns
  an error and changes nothing, and the session answers as for a missing configuration
  instead of acknowledging. The source has no error return in \<^verbatim>\<open>start()\<close>. With a child
  object with its streams returned by \<^verbatim>\<open>spawn\<close> (which is what happens when the binary is
  missing: the failure arrives later as the child's \<^verbatim>\<open>error\<close> event), \<^verbatim>\<open>start()\<close> returns
  normally with the child stored and \<^verbatim>\<open>isStreaming\<close> true, the streaming frame is sent, and
  the \<^verbatim>\<open>error\<close> listener clears the fields afterwards while the registry entry stays. With
  a child without streams, \<^verbatim>\<open>start()\<close> throws after it has stored the child, and no frame
  is sent. With a \<^verbatim>\<open>spawn\<close> that throws, no frame at all is sent either. In the last two
  cases the connection has left the state in which it accepts a configuration.
\<close>

theorem C1_spawn_failure_counterexample:
  "fst (start SpawnReturns 0 demo_world) = Returned
   \<and> map ffmpeg (heap (snd (start SpawnReturns 0 demo_world))) = [Some (Child 0)]
   \<and> map isStreaming (heap (snd (start SpawnReturns 0 demo_world))) = [True]
   \<and> sent (fst demo_streaming) = [StreamingFrame ''youtube'']
   \<and> map ffmpeg (heap (ffmpeg_on_error 0 ''spawn ffmpeg ENOENT'' (snd demo_streaming))) = [None]
   \<and> streams (ffmpeg_on_error 0 ''spawn ffmpeg ENOENT'' (snd demo_streaming)) = [(''youtube'', 0)]
   \<and> fst (start SpawnReturnsWithoutStdio 0 demo_world) = Thrown TypeError
   \<and> map ffmpeg (heap (snd (start SpawnReturnsWithoutStdio 0 demo_world))) = [Some ChildWithoutStdio]
   \<and> sent (fst demo_without_stdio) = []
   \<and> streamOutput (fst demo_without_stdio) = Some 0
   \<and> sent (fst demo_thrown) = []
   \<and> streamOutput (fst demo_thrown) = Some 0"
  by (simp add: demo_streaming_eq demo_thrown_eq demo_without_stdio_eq demo_world_def
      init_world_def start_def ffmpeg_on_error_def lookup_def log_def clear_child_def
      set_child_def fresh_child_def new_StreamOutput_def)

text \<open>
  C1, amended. For a configuration with credentials on a connection that has none yet: if
  \<^verbatim>\<open>spawn\<close> throws, \<^verbatim>\<open>start()\<close> throws the same exception and leaves the supervisor's fields
  as the constructor set them; the handler logs the exception, sends no frame, spawns
  nothing and registers nothing. If \<^verbatim>\<open>spawn\<close> returns a child with its streams, whose
  failure is reported by its \<^verbatim>\<open>error\<close> event, the handler has sent the streaming frame and
  registered a supervisor holding the child with \<^verbatim>\<open>isStreaming\<close> true; the \<^verbatim>\<open>error\<close> listener
  then clears the child and sets \<^verbatim>\<open>isStreaming\<close> to false, and leaves the registry as it is.
  (Nothing is said here about a child returned without streams; what the code does then is
  \<open>configure_without_stdio\<close>.)
\<close>

theorem C1_spawn_failure_paths:
  assumes "streamOutput c = None"
    and "credentials e (or_default x ''youtube'') = Credentials cfg k"
  shows "let p = or_default x ''youtube'';
             url = or_default (cfg ''STREAM_URL'') ''rtmp://a.rtmp.youtube.com/live2'';
             a = length (heap w); j = length (procs w);
             w3 = w\<lparr>heap := heap w @ [new_StreamOutput p k url]\<rparr>;
             thrown = on_message e (SpawnThrows err) (Text (PlatformField x)) (c, w);
             acked = on_message e SpawnReturns (Text (PlatformField x)) (c, w)
         in start (SpawnThrows err) a w3 = (Thrown err, log (StartingFfmpeg p url) w3)
          \<and> sent (fst thrown) = sent c
          \<and> heap (snd thrown) = heap w @ [new_StreamOutput p k url]
          \<and> procs (snd thrown) = procs w
          \<and> streams (snd thrown) = streams w
          \<and> console (snd thrown)
              = console w @ [ConfiguringStream p, StartingFfmpeg p url, InvalidConfigMessage err]
          \<and> sent (fst acked) = sent c @ [StreamingFrame p]
          \<and> lookup (heap (snd acked)) a
              = Some \<lparr>platform = p, streamKey = k, streamUrl = url,
                      ffmpeg = Some (Child j), isStreaming = True\<rparr>
          \<and> map_get (streams (snd acked)) p = Some a
          \<and> lookup (heap (ffmpeg_on_error j err (snd acked))) a
              = Some \<lparr>platform = p, streamKey = k, streamUrl = url,
                      ffmpeg = None, isStreaming = False\<rparr>
          \<and> streams (ffmpeg_on_error j err (snd acked)) = streams (snd acked)"
proof -
  let ?p = "or_default x ''youtube''"
  let ?url = "or_default (cfg ''STREAM_URL'') ''rtmp://a.rtmp.youtube.com/live2''"
  let ?obj = "\<lparr>platform = ?p, streamKey = k, streamUrl = ?url,
               ffmpeg = Some (Child (length (procs w))), isStreaming = True\<rparr>"
  let ?w3 = "w\<lparr>heap := heap w @ [new_StreamOutput ?p k ?url]\<rparr>"
  have r: "on_message e sp' (Text (PlatformField x)) (c, w) = configure e sp' (PlatformField x) (c, w)"
    for sp'
    using assms(1) by simp
  have st: "start (SpawnThrows err) (length (heap w)) ?w3
              = (Thrown err, log (StartingFfmpeg ?p ?url) ?w3)"
    by (simp add: start_def lookup_def new_StreamOutput_def)
  define acked where "acked = snd (configure e SpawnReturns (PlatformField x) (c, w))"
  have pr: "lookup (procs acked) (length (procs w))
              = Some (fresh_child (length (heap w)) (?url @ ''/'' @ k))"
    and ob: "lookup (heap acked) (length (heap w)) = Some ?obj"
    and sg: "map_get (streams acked) ?p = Some (length (heap w))"
    unfolding acked_def configure_accepts [OF assms(2)]
    by (simp_all add: lookup_def map_get_set_same)
  have ob': "lookup (heap acked) (listener (fresh_child (length (heap w)) (?url @ ''/'' @ k))) = Some ?obj"
    using ob by (simp add: fresh_child_def)
  have er: "lookup (heap (ffmpeg_on_error (length (procs w)) err acked)) (length (heap w))
              = Some (?obj\<lparr>ffmpeg := None, isStreaming := False\<rparr>)"
  proof -
    have "length (heap w) < length (heap acked)"
      using ob by (simp add: lookup_Some_iff)
    then show ?thesis
      by (simp add: ffmpeg_on_error_listener [OF pr ob'] fresh_child_def lookup_def)
  qed
  have thrown: "sent (fst (configure e (SpawnThrows err) (PlatformField x) (c, w))) = sent c"
    "heap (snd (configure e (SpawnThrows err) (PlatformField x) (c, w)))
       = heap w @ [new_StreamOutput ?p k ?url]"
    "procs (snd (configure e (SpawnThrows err) (PlatformField x) (c, w))) = procs w"
    "streams (snd (configure e (SpawnThrows err) (PlatformField x) (c, w))) = streams w"
    "console (snd (configure e (SpawnThrows err) (PlatformField x) (c, w)))
       = console w @ [ConfiguringStream ?p, StartingFfmpeg ?p ?url, InvalidConfigMessage err]"
    by (simp_all add: configure_throws [OF assms(2)])
  have snt: "sent (fst (configure e SpawnReturns (PlatformField x) (c, w)))
               = sent c @ [StreamingFrame ?p]"
    by (simp add: configure_accepts [OF assms(2)])
  show ?thesis
    unfolding Let_def r acked_def [symmetric]
    using st thrown snt ob sg er by simp
qed

theorem C1_spawn_failure_paths_witness:
  "streamOutput (fst (on_connection init_world)) = None
   \<and> credentials demo_env ''youtube'' = Credentials [''STREAM_KEY'' \<mapsto> ''abcd''] ''abcd''
   \<and> sent (fst demo_thrown) = []
   \<and> sent (fst demo_streaming) = [StreamingFrame ''youtube'']"
proof -
  let ?cw = "on_connection init_world"
  have h1: "streamOutput (fst ?cw) = None" by (simp add: on_connection_def)
  have h2: "credentials demo_env (or_default (Some ''youtube'') ''youtube'')
             = Credentials [''STREAM_KEY'' \<mapsto> ''abcd''] ''abcd''"
    by (simp add: or_default_def demo_credentials_youtube)
  have cw: "(fst ?cw, snd ?cw) = ?cw" by simp
  have s0: "sent (fst ?cw) = []" by (simp add: on_connection_def)
  note r = C1_spawn_failure_paths [OF h1 h2, where err = "''spawn EAGAIN''" and w = "snd ?cw",
      unfolded Let_def cw demo_thrown_def [symmetric] demo_streaming_def [symmetric] s0]
  from r have a: "sent (fst demo_thrown) = []" by blast
  from r have b: "sent (fst demo_streaming) = [] @ [StreamingFrame (or_default (Some ''youtube'') ''youtube'')]"
    by blast
  show ?thesis using h1 a b by (simp add: demo_credentials_youtube or_default_def)
qed

text \<open>
  C2 (as stated, it fails). The claim: the fields are cleared exactly once, also when
  \<^verbatim>\<open>stop()\<close> is followed by the child's exit event. \<^verbatim>\<open>stop()\<close> clears them, and the \<^verbatim>\<open>close\<close>
  listener, which has no guard, clears them again.
\<close>

theorem C2_double_clear_counterexample:
  "map ffmpeg (heap (stop 0 (snd demo_streaming))) = [None]
   \<and> cleared (stop 0 (snd demo_streaming)) = [0]
   \<and> cleared (ffmpeg_on_close 0 (Some 255) (stop 0 (snd demo_streaming))) = [0, 0]"
  by (simp add: demo_streaming_eq stop_def ffmpeg_on_close_def lookup_def log_def
      stdin_end_def kill_def clear_child_def set_child_def fresh_child_def)

text \<open>
  C2, amended. When the child's \<^verbatim>\<open>close\<close> event is handled, the supervisor whose listener
  it is gets \<^verbatim>\<open>ffmpeg = null\<close> and \<^verbatim>\<open>isStreaming = false\<close>, whatever made the child exit. The
  listener is not guarded: after a \<^verbatim>\<open>stop()\<close> of a running supervisor, the exit event
  executes the two assignments a second time, which changes neither the heap nor the
  process table.
\<close>

theorem C2_exit_clears_unguarded:
  assumes "lookup (procs w) k = Some p" and "lookup (heap w) (listener p) = Some this"
  shows "lookup (heap (ffmpeg_on_close k code w)) (listener p)
           = Some (this\<lparr>ffmpeg := None, isStreaming := False\<rparr>)
       \<and> cleared (ffmpeg_on_close k code w) = cleared w @ [listener p]
       \<and> (ffmpeg this = Some (Child k) \<longrightarrow>
            heap (ffmpeg_on_close k code (stop (listener p) w)) = heap (stop (listener p) w)
          \<and> procs (ffmpeg_on_close k code (stop (listener p) w)) = procs (stop (listener p) w)
          \<and> cleared (ffmpeg_on_close k code (stop (listener p) w))
              = cleared w @ [listener p, listener p])"
proof -
  let ?a = "listener p"
  from assms have k: "k < length (procs w)" and a: "?a < length (heap w)"
    by (simp_all add: lookup_Some_iff)
  have first: "lookup (heap (ffmpeg_on_close k code w)) ?a
                 = Some (this\<lparr>ffmpeg := None, isStreaming := False\<rparr>)"
    "cleared (ffmpeg_on_close k code w) = cleared w @ [?a]"
    using a by (simp_all add: ffmpeg_on_close_listener [OF assms] lookup_def)
  have second: "heap (ffmpeg_on_close k code (stop ?a w)) = heap (stop ?a w)
          \<and> procs (ffmpeg_on_close k code (stop ?a w)) = procs (stop ?a w)
          \<and> cleared (ffmpeg_on_close k code (stop ?a w)) = cleared w @ [?a, ?a]"
    if run: "ffmpeg this = Some (Child k)"
  proof -
    let ?p = "p\<lparr>stdin_writable := False, stdin_ended := True, signals := signals p @ [''SIGTERM'']\<rparr>"
    let ?t = "this\<lparr>ffmpeg := None, isStreaming := False\<rparr>"
    note s = stop_running [OF assms(2) run assms(1)]
    have p': "lookup (procs (stop ?a w)) k = Some ?p"
      using k by (simp add: s lookup_def)
    have t': "lookup (heap (stop ?a w)) (listener ?p) = Some ?t"
      using a by (simp add: s lookup_def)
    show ?thesis
      unfolding ffmpeg_on_close_listener [OF p' t'] by (simp add: s)
  qed
  show ?thesis using first second by simp
qed

theorem C2_exit_clears_unguarded_witness:
  "lookup (procs (snd demo_streaming)) 0 = Some (fresh_child 0 ''rtmp://a.rtmp.youtube.com/live2/abcd'')
   \<and> map_option ffmpeg (lookup (heap (snd demo_streaming)) 0) = Some (Some (Child 0))
   \<and> map_option ffmpeg (lookup (heap (ffmpeg_on_close 0 None (snd demo_streaming))) 0) = Some None
   \<and> heap (ffmpeg_on_close 0 None (stop 0 (snd demo_streaming))) = heap (stop 0 (snd demo_streaming))
   \<and> cleared (ffmpeg_on_close 0 None (stop 0 (snd demo_streaming))) = [0, 0]"
proof -
  let ?w = "snd demo_streaming" and ?p = "fresh_child 0 ''rtmp://a.rtmp.youtube.com/live2/abcd''"
  have l: "listener ?p = 0" by (simp add: fresh_child_def)
  have h1: "lookup (procs ?w) 0 = Some ?p" by (simp add: demo_streaming_eq lookup_def)
  have h2: "lookup (heap ?w) (listener ?p) = Some (heap ?w ! 0)"
    by (simp add: l) (simp add: demo_streaming_eq lookup_def)
  have h3: "ffmpeg (heap ?w ! 0) = Some (Child 0)" by (simp add: demo_streaming_eq)
  have c: "cleared ?w = []" by (simp add: demo_streaming_eq)
  note r = C2_exit_clears_unguarded [OF h1 h2, of None, unfolded l]
  from r have a: "lookup (heap (ffmpeg_on_close 0 None ?w)) 0
                    = Some ((heap ?w ! 0)\<lparr>ffmpeg := None, isStreaming := False\<rparr>)"
    by blast
  from r h3 have b: "heap (ffmpeg_on_close 0 None (stop 0 ?w)) = heap (stop 0 ?w)"
    and d: "cleared (ffmpeg_on_close 0 None (stop 0 ?w)) = cleared ?w @ [0, 0]"
    by blast+
  show ?thesis
    using h1 h2 h3 b by (simp add: a d c l)
qed

text \<open>
  C3 (as stated, it fails). The claim: the socket's \<^verbatim>\<open>error\<close> handler does the teardown of
  the \<^verbatim>\<open>close\<close> handler and logs. On a streaming connection the \<^verbatim>\<open>close\<close> handler stops the
  child and empties the registry; the \<^verbatim>\<open>error\<close> handler leaves the child referenced, sends
  it no signal and leaves the registry entry.
\<close>

theorem C3_error_teardown_counterexample:
  "streams (snd (on_close demo_streaming)) = []
   \<and> map ffmpeg (heap (snd (on_close demo_streaming))) = [None]
   \<and> map signals (procs (snd (on_close demo_streaming))) = [[''SIGTERM'']]
   \<and> streams (snd (on_error ''ECONNRESET'' demo_streaming)) = [(''youtube'', 0)]
   \<and> map ffmpeg (heap (snd (on_error ''ECONNRESET'' demo_streaming))) = [Some (Child 0)]
   \<and> map signals (procs (snd (on_error ''ECONNRESET'' demo_streaming))) = [[]]"
  by (simp add: demo_streaming_eq on_close_def on_error_def stop_def stop_throws_def lookup_def
      log_def stdin_end_def kill_def clear_child_def set_child_def fresh_child_def)

text \<open>
  C3, amended. The socket's \<^verbatim>\<open>error\<close> handler only logs the error: the connection's
  variables, the supervisor, the processes and the registry are as before. The teardown is
  what the \<^verbatim>\<open>close\<close> handler does, also when it runs after the \<^verbatim>\<open>error\<close> handler: it
  stops the supervisor and removes the registry entry of the connection's platform.
\<close>

theorem C3_error_handler_only_logs:
  assumes "streamOutput c = Some a"
    and "lookup (heap w) a = Some this" and "ffmpeg this = Some (Child k)"
  shows "on_error err (c, w) = (c, w\<lparr>console := console w @ [WebSocketError err]\<rparr>)
       \<and> lookup (heap (snd (on_error err (c, w)))) a = Some this
       \<and> streams (snd (on_error err (c, w))) = streams w
       \<and> procs (snd (on_error err (c, w))) = procs w
       \<and> lookup (heap (snd (on_close (on_error err (c, w))))) a
           = Some (this\<lparr>ffmpeg := None, isStreaming := False\<rparr>)
       \<and> map_get (streams (snd (on_close (on_error err (c, w))))) (conn_platform c) = None"
proof -
  let ?w = "log BrowserDisconnected (log (WebSocketError err) w)"
  have e: "on_error err (c, w) = (c, log (WebSocketError err) w)"
    by (simp add: on_error_def)
  have obj: "lookup (heap ?w) a = Some this" using assms(2) by simp
  have nt: "\<not> stop_throws a (log (WebSocketError err) w)"
    using assms(2,3) by (simp add: stop_throws_def)
  have "lookup (heap (stop a ?w)) a = Some (this\<lparr>ffmpeg := None, isStreaming := False\<rparr>)"
    using obj assms(3) by (simp add: stop_def clear_child_obj kill_def stdin_end_def split: option.splits)
  then show ?thesis
    using assms(2)
    by (simp add: e on_close_streaming [OF assms(1) nt] map_get_delete_same) (simp add: log_def)
qed

theorem C3_error_handler_only_logs_witness:
  "streamOutput (fst demo_streaming) = Some 0
   \<and> map_option ffmpeg (lookup (heap (snd demo_streaming)) 0) = Some (Some (Child 0))
   \<and> streams (snd (on_error ''ECONNRESET'' demo_streaming)) = [(''youtube'', 0)]
   \<and> map_get (streams (snd (on_close (on_error ''ECONNRESET'' demo_streaming)))) ''youtube'' = None"
proof -
  let ?c = "fst demo_streaming" and ?w = "snd demo_streaming"
  have h1: "streamOutput ?c = Some 0" by (simp add: demo_streaming_eq)
  have h2: "lookup (heap ?w) 0 = Some (heap ?w ! 0)" by (simp add: demo_streaming_eq lookup_def)
  have h3: "ffmpeg (heap ?w ! 0) = Some (Child 0)" by (simp add: demo_streaming_eq)
  have cw: "(?c, ?w) = demo_streaming" by simp
  have p: "conn_platform ?c = ''youtube''" by (simp add: demo_streaming_eq)
  note r = C3_error_handler_only_logs [OF h1 h2 h3, of "''ECONNRESET''", unfolded cw p]
  from r have a: "streams (snd (on_error ''ECONNRESET'' demo_streaming)) = streams ?w"
    by blast
  from r have b: "map_get (streams (snd (on_close (on_error ''ECONNRESET'' demo_streaming)))) ''youtube'' = None"
    by blast
  show ?thesis using h1 h2 h3 b by (simp add: a) (simp add: demo_streaming_eq)
qed

text \<open>
  C4 (as stated, it fails). The claim: without \<^verbatim>\<open>STREAM_URL\<close> the endpoint is a default that
  depends on the platform. The credentials of \<^verbatim>\<open>twitch\<close> and of \<^verbatim>\<open>youtube\<close> both lack
  \<^verbatim>\<open>STREAM_URL\<close>, and both supervisors get the same endpoint, the YouTube one; the child for
  \<^verbatim>\<open>twitch\<close> is pointed at it.
\<close>

theorem C4_default_endpoint_counterexample:
  "credentials demo_env ''twitch'' = Credentials [''STREAM_KEY'' \<mapsto> ''live_1''] ''live_1''
   \<and> credentials demo_env ''youtube'' = Credentials [''STREAM_KEY'' \<mapsto> ''abcd''] ''abcd''
   \<and> map streamUrl (heap (snd demo_twitch)) = [''rtmp://a.rtmp.youtube.com/live2'']
   \<and> map streamUrl (heap (snd demo_streaming)) = [''rtmp://a.rtmp.youtube.com/live2'']
   \<and> map (last \<circ> argv) (procs (snd demo_twitch)) = [''rtmp://a.rtmp.youtube.com/live2/live_1'']"
  by (simp add: demo_credentials_twitch demo_credentials_youtube demo_twitch_eq
      demo_streaming_eq fresh_child_def ffmpeg_args_def)

text \<open>
  C4, amended. For every platform whose credential file gives a stream key and no (or an
  empty) \<^verbatim>\<open>STREAM_URL\<close>, the endpoint of the supervisor that is created is the one built-in
  default \<^verbatim>\<open>rtmp://a.rtmp.youtube.com/live2\<close>, the same for every platform identifier, and
  the child is spawned with that endpoint followed by \<^verbatim>\<open>/\<close> and the key as its output.
\<close>

theorem C4_single_default_endpoint:
  assumes "streamOutput c = None"
    and "credentials e (or_default x ''youtube'') = Credentials cfg k"
    and "cfg ''STREAM_URL'' = None \<or> cfg ''STREAM_URL'' = Some []"
  shows "map_option streamUrl
           (lookup (heap (snd (on_message e sp (Text (PlatformField x)) (c, w)))) (length (heap w)))
         = Some ''rtmp://a.rtmp.youtube.com/live2''
       \<and> map_option argv
           (lookup (procs (snd (on_message e SpawnReturns (Text (PlatformField x)) (c, w))))
              (length (procs w)))
         = Some (ffmpeg_args (''rtmp://a.rtmp.youtube.com/live2/'' @ k))"
proof -
  have u: "or_default (cfg ''STREAM_URL'') ''rtmp://a.rtmp.youtube.com/live2''
           = ''rtmp://a.rtmp.youtube.com/live2''"
    using assms(3) by (auto simp: or_default_def)
  have r: "on_message e sp' (Text (PlatformField x)) (c, w) = configure e sp' (PlatformField x) (c, w)"
    for sp'
    using assms(1) by simp
  have a: "map_option streamUrl
           (lookup (heap (snd (on_message e sp (Text (PlatformField x)) (c, w)))) (length (heap w)))
         = Some ''rtmp://a.rtmp.youtube.com/live2''"
  proof (cases sp)
    case SpawnReturns
    show ?thesis
      unfolding SpawnReturns r configure_accepts [OF assms(2)] u by (simp add: lookup_def)
  next
    case SpawnReturnsWithoutStdio
    show ?thesis
      unfolding SpawnReturnsWithoutStdio r configure_without_stdio [OF assms(2)] u
      by (simp add: lookup_def new_StreamOutput_def)
  next
    case (SpawnThrows err)
    show ?thesis
      unfolding SpawnThrows r configure_throws [OF assms(2)] u
      by (simp add: lookup_def new_StreamOutput_def)
  qed
  have b: "map_option argv
           (lookup (procs (snd (on_message e SpawnReturns (Text (PlatformField x)) (c, w))))
              (length (procs w)))
         = Some (ffmpeg_args (''rtmp://a.rtmp.youtube.com/live2/'' @ k))"
    unfolding r configure_accepts [OF assms(2)] u by (simp add: lookup_def fresh_child_def)
  show ?thesis using a b by simp
qed

theorem C4_single_default_endpoint_witness:
  "streamOutput (fst (on_connection init_world)) = None
   \<and> credentials demo_env ''twitch'' = Credentials [''STREAM_KEY'' \<mapsto> ''live_1''] ''live_1''
   \<and> map_option streamUrl (lookup (heap (snd demo_twitch)) 0) = Some ''rtmp://a.rtmp.youtube.com/live2''"
proof -
  let ?cw = "on_connection init_world"
  have h1: "streamOutput (fst ?cw) = None" by (simp add: on_connection_def)
  have h2: "credentials demo_env (or_default (Some ''twitch'') ''youtube'')
             = Credentials [''STREAM_KEY'' \<mapsto> ''live_1''] ''live_1''"
    by (simp add: or_default_def demo_credentials_twitch)
  have h3: "[''STREAM_KEY'' \<mapsto> ''live_1''] ''STREAM_URL'' = None
            \<or> [''STREAM_KEY'' \<mapsto> ''live_1''] ''STREAM_URL'' = Some []"
    by simp
  have cw: "(fst ?cw, snd ?cw) = ?cw" by simp
  have len: "length (heap (snd ?cw)) = 0" by (simp add: on_connection_def init_world_def)
  from C4_single_default_endpoint [OF h1 h2 h3, of SpawnReturns "snd ?cw"]
  have "map_option streamUrl (lookup (heap (snd demo_twitch)) 0) = Some ''rtmp://a.rtmp.youtube.com/live2''"
    unfolding cw demo_twitch_def [symmetric] len by simp
  then show ?thesis using h1 by (simp add: demo_credentials_twitch)
qed

text \<open>
  C5. \<^verbatim>\<open>start()\<close> is idempotent. On a supervisor without a child, when \<^verbatim>\<open>spawn\<close> returns a
  child, the first call returns normally and adds exactly one process. A second call right
  after it returns normally whatever \<^verbatim>\<open>spawn\<close> would do, and its whole effect is one
  console line: the process table and the heap are as the first call left them.
\<close>

theorem C5_start_idempotent:
  assumes "lookup (heap w) a = Some this" and "ffmpeg this = None"
  shows "fst (start SpawnReturns a w) = Returned
       \<and> length (procs (snd (start SpawnReturns a w))) = Suc (length (procs w))
       \<and> start sp a (snd (start SpawnReturns a w))
           = (Returned, log (AlreadyRunning (platform this)) (snd (start SpawnReturns a w)))
       \<and> procs (snd (start sp a (snd (start SpawnReturns a w)))) = procs (snd (start SpawnReturns a w))
       \<and> heap (snd (start sp a (snd (start SpawnReturns a w)))) = heap (snd (start SpawnReturns a w))"
proof -
  from assms have a: "a < length (heap w)" and at_a: "heap w ! a = this"
    by (simp_all add: lookup_Some_iff)
  define w1 where "w1 = snd (start SpawnReturns a w)"
  have first: "start SpawnReturns a w =
      (Returned, set_child a (Some (Child (length (procs w)))) True
         ((log (StartingFfmpeg (platform this) (streamUrl this)) w)
            \<lparr>procs := procs w @ [fresh_child a (streamUrl this @ ''/'' @ streamKey this)]\<rparr>))"
    using assms by (simp add: start_def Let_def log_def)
  have obj: "lookup (heap w1) a = Some (this\<lparr>ffmpeg := Some (Child (length (procs w))), isStreaming := True\<rparr>)"
    using a at_a assms(1) by (simp add: w1_def first set_child_def log_def lookup_def)
  have len: "length (procs w1) = Suc (length (procs w))"
    using assms(1) by (simp add: w1_def first set_child_def log_def)
  have second: "start sp a w1 = (Returned, log (AlreadyRunning (platform this)) w1)"
    using obj by (simp add: start_def)
  have r: "fst (start SpawnReturns a w) = Returned"
    by (simp add: first)
  show ?thesis
    unfolding w1_def [symmetric] using r len second by (simp add: log_def)
qed

theorem C5_start_idempotent_witness:
  "lookup (heap demo_world) 0 = Some (new_StreamOutput ''youtube'' ''abcd'' ''rtmp://a.rtmp.youtube.com/live2'')
   \<and> length (procs (snd (start SpawnReturns 0 demo_world))) = 1
   \<and> length (procs (snd (start SpawnReturns 0 (snd (start SpawnReturns 0 demo_world))))) = 1
   \<and> console (snd (start SpawnReturns 0 (snd (start SpawnReturns 0 demo_world))))
       = [StartingFfmpeg ''youtube'' ''rtmp://a.rtmp.youtube.com/live2'', AlreadyRunning ''youtube'']"
proof -
  have h1: "lookup (heap demo_world) 0 = Some (new_StreamOutput ''youtube'' ''abcd'' ''rtmp://a.rtmp.youtube.com/live2'')"
    by (simp add: demo_world_def init_world_def lookup_def)
  have h2: "ffmpeg (new_StreamOutput ''youtube'' ''abcd'' ''rtmp://a.rtmp.youtube.com/live2'') = None"
    by (simp add: new_StreamOutput_def)
  have c: "console (snd (start SpawnReturns 0 demo_world)) = [StartingFfmpeg ''youtube'' ''rtmp://a.rtmp.youtube.com/live2'']"
    by (simp add: start_def demo_world_def init_world_def lookup_def new_StreamOutput_def log_def set_child_def)
  show ?thesis
    using C5_start_idempotent [OF h1 h2, of SpawnReturns] h1 c
    by (simp add: demo_world_def init_world_def log_def new_StreamOutput_def)
qed

text \<open>
  C6. While a connection is streaming and the standard input of its supervisor's child is
  writable, the binary messages it receives reach that standard input as they came: the
  chunks written are the chunks received, in the same order, one write per message, and
  nothing else in the state changes.
\<close>

theorem C6_chunks_in_order:
  assumes "streamOutput c = Some a"
    and "lookup (heap w) a = Some this" and "ffmpeg this = Some (Child k)"
    and "lookup (procs w) k = Some p" and "stdin_writable p"
  shows "on_messages e sp (map Binary chunks) (c, w)
         = (c, w\<lparr>procs := (procs w)[k := p\<lparr>stdin_data := stdin_data p @ chunks\<rparr>]\<rparr>)"
  using assms
proof (induction chunks arbitrary: w p)
  case Nil
  then have "(procs w)[k := p] = procs w" by (auto simp: lookup_Some_iff)
  then show ?case by simp
next
  case (Cons x xs)
  let ?p = "p\<lparr>stdin_data := stdin_data p @ [x]\<rparr>"
  let ?w = "w\<lparr>procs := (procs w)[k := ?p]\<rparr>"
  have step: "on_message e sp (Binary x) (c, w) = (c, ?w)"
    using Cons.prems by (simp add: write_delivers)
  have k: "k < length (procs w)" using Cons.prems by (simp add: lookup_Some_iff)
  have unroll: "on_messages e sp (map Binary (x # xs)) (c, w) = on_messages e sp (map Binary xs) (c, ?w)"
    by (simp only: list.map on_messages.simps step)
  have "on_messages e sp (map Binary xs) (c, ?w)
        = (c, ?w\<lparr>procs := (procs ?w)[k := ?p\<lparr>stdin_data := stdin_data ?p @ xs\<rparr>]\<rparr>)"
  proof (rule Cons.IH)
    show "streamOutput c = Some a" by (rule Cons.prems)
    show "lookup (heap ?w) a = Some this" using Cons.prems by simp
    show "ffmpeg this = Some (Child k)" by (rule Cons.prems)
    show "lookup (procs ?w) k = Some ?p" using k by (simp add: lookup_def)
    show "stdin_writable ?p" using Cons.prems by simp
  qed
  then show ?case by (simp only: unroll) simp
qed

theorem C6_chunks_in_order_witness:
  "streamOutput (fst demo_streaming) = Some 0
   \<and> map stdin_writable (procs (snd demo_streaming)) = [True]
   \<and> map stdin_data (procs (snd (on_messages demo_env SpawnReturns
         (map Binary [[1, 2], [], [3], [1, 2]]) demo_streaming))) = [[[1, 2], [], [3], [1, 2]]]"
proof -
  let ?c = "fst demo_streaming" and ?w = "snd demo_streaming"
  have h1: "streamOutput ?c = Some 0" by (simp add: demo_streaming_eq)
  have h2: "lookup (heap ?w) 0 = Some (heap ?w ! 0)" by (simp add: demo_streaming_eq lookup_def)
  have h3: "ffmpeg (heap ?w ! 0) = Some (Child 0)" by (simp add: demo_streaming_eq)
  have h4: "lookup (procs ?w) 0 = Some (procs ?w ! 0)" by (simp add: demo_streaming_eq lookup_def)
  have h5: "stdin_writable (procs ?w ! 0)" by (simp add: demo_streaming_eq fresh_child_def)
  have "on_messages demo_env SpawnReturns (map Binary [[1, 2], [], [3], [1, 2]]) (?c, ?w)
        = (?c, ?w\<lparr>procs := (procs ?w)[0 := (procs ?w ! 0)
             \<lparr>stdin_data := stdin_data (procs ?w ! 0) @ [[1, 2], [], [3], [1, 2]]\<rparr>]\<rparr>)"
    using C6_chunks_in_order [OF h1 h2 h3 h4 h5] .
  then show ?thesis
    by (simp add: demo_streaming_eq fresh_child_def)
qed

text \<open>
  C7. A configuration message for a platform without usable credentials (no file, or a file
  without a non-empty \<^verbatim>\<open>STREAM_KEY\<close>) makes the server send the error frame; no
  \<open>StreamOutput\<close> is created, no process is spawned, the registry is untouched and the
  connection still has no stream output, so it is still waiting for a configuration. The
  handler's only action on the socket is that \<^verbatim>\<open>send\<close>. A following configuration message
  for a platform with credentials is accepted: the streaming frame is sent, a supervisor
  with a running child is created and registered.
\<close>

theorem C7_unknown_platform_rejected_then_retry:
  assumes "streamOutput c = None"
    and "credentials e (or_default x ''youtube'') = NoCredentials"
    and "credentials e (or_default y ''youtube'') = Credentials cfg k"
  shows "let p = or_default x ''youtube''; q = or_default y ''youtube'';
             url = or_default (cfg ''STREAM_URL'') ''rtmp://a.rtmp.youtube.com/live2'';
             c1 = fst (on_message e sp (Text (PlatformField x)) (c, w));
             w1 = snd (on_message e sp (Text (PlatformField x)) (c, w));
             c2 = fst (on_message e SpawnReturns (Text (PlatformField y)) (c1, w1));
             w2 = snd (on_message e SpawnReturns (Text (PlatformField y)) (c1, w1))
         in sent c1 = sent c @ [ErrorFrame (''No stream key found for '' @ p)]
          \<and> streamOutput c1 = None
          \<and> heap w1 = heap w \<and> procs w1 = procs w \<and> streams w1 = streams w
          \<and> sent c2 = sent c1 @ [StreamingFrame q]
          \<and> streamOutput c2 = Some (length (heap w))
          \<and> heap w2 = heap w @ [\<lparr>platform = q, streamKey = k, streamUrl = url,
                                   ffmpeg = Some (Child (length (procs w))), isStreaming = True\<rparr>]
          \<and> procs w2 = procs w @ [fresh_child (length (heap w)) (url @ ''/'' @ k)]
          \<and> map_get (streams w2) q = Some (length (heap w))"
proof -
  obtain c1 w1 where r1: "on_message e sp (Text (PlatformField x)) (c, w) = (c1, w1)"
    by (cases "on_message e sp (Text (PlatformField x)) (c, w)")
  have c1: "c1 = c\<lparr>conn_platform := or_default x ''youtube'',
        sent := sent c @ [ErrorFrame (''No stream key found for '' @ or_default x ''youtube'')]\<rparr>"
    and w1: "w1 = w\<lparr>console := console w @ ConfiguringStream (or_default x ''youtube'') #
           (if files e (envPath e (or_default x ''youtube'')) = None
            then [StreamConfigNotFound (envPath e (or_default x ''youtube''))] else [])\<rparr>"
    using r1 assms(1) configure_rejects [OF assms(2), of sp c w] by simp_all
  have s1: "streamOutput c1 = None" using assms(1) by (simp add: c1)
  have r2: "on_message e SpawnReturns (Text (PlatformField y)) (c1, w1)
            = configure e SpawnReturns (PlatformField y) (c1, w1)"
    using s1 by simp
  show ?thesis
    unfolding Let_def r1 r2 configure_accepts [OF assms(3)] fst_conv snd_conv
    using assms(1) by (simp add: c1 w1 map_get_set_same)
qed

theorem C7_unknown_platform_rejected_then_retry_witness:
  "streamOutput (fst (on_connection init_world)) = None
   \<and> credentials demo_env ''vimeo'' = NoCredentials
   \<and> credentials demo_env ''youtube'' \<noteq> NoCredentials
   \<and> sent (fst (on_message demo_env SpawnReturns (Text (PlatformField (Some ''vimeo'')))
         (on_connection init_world)))
       = [ErrorFrame ''No stream key found for vimeo'']
   \<and> sent (fst (on_messages demo_env SpawnReturns
         [Text (PlatformField (Some ''vimeo'')), Text (PlatformField (Some ''youtube''))]
         (on_connection init_world)))
       = [ErrorFrame ''No stream key found for vimeo'', StreamingFrame ''youtube'']"
proof -
  have h1: "streamOutput (fst (on_connection init_world)) = None"
    by (simp add: on_connection_def)
  have h2: "credentials demo_env (or_default (Some ''vimeo'') ''youtube'') = NoCredentials"
    by (simp add: or_default_def demo_credentials_vimeo)
  have h3: "credentials demo_env (or_default (Some ''youtube'') ''youtube'')
            = Credentials [''STREAM_KEY'' \<mapsto> ''abcd''] ''abcd''"
    by (simp add: or_default_def demo_credentials_youtube)
  show ?thesis
    using C7_unknown_platform_rejected_then_retry [OF h1 h2 h3, of SpawnReturns "snd (on_connection init_world)"]
      h1 h2 h3
    by (simp add: Let_def or_default_def on_connection_def del: on_message.simps)
qed




text \<open>
  C9. A connection that configures a platform which is already in the registry is not
  rejected: it gets the streaming frame, and the registry entry of that platform now holds
  the new supervisor, in place of the old one, with no entry added. Every handler keeps the
  keys of the registry distinct, so a platform has at most one entry at any time; here it
  has exactly one.
\<close>

theorem C9_second_session_overwrites:
  assumes "streamOutput c = None"
    and "map_get (streams w) (or_default x ''youtube'') = Some a1"
    and "a1 < length (heap w)"
    and "credentials e (or_default x ''youtube'') = Credentials cfg k"
    and "distinct (map_keys (streams w))"
  shows "let p = or_default x ''youtube'';
             c' = fst (on_message e SpawnReturns (Text (PlatformField x)) (c, w));
             w' = snd (on_message e SpawnReturns (Text (PlatformField x)) (c, w))
         in sent c' = sent c @ [StreamingFrame p]
          \<and> streamOutput c' = Some (length (heap w))
          \<and> map_get (streams w') p = Some (length (heap w))
          \<and> length (heap w) \<noteq> a1
          \<and> map_keys (streams w') = map_keys (streams w)
          \<and> count_list (map_keys (streams w')) p = 1
          \<and> distinct (map_keys (streams (snd (on_message e sp' m' (c'', w)))))
          \<and> distinct (map_keys (streams (snd (on_close (c'', w)))))
          \<and> distinct (map_keys (streams (snd (on_error err (c'', w)))))
          \<and> distinct (map_keys (streams (ffmpeg_on_close k' code w)))
          \<and> distinct (map_keys (streams (ffmpeg_on_error k' err w)))"
proof -
  let ?p = "or_default x ''youtube''"
  have mem: "?p \<in> set (map_keys (streams w))"
    using assms(2) map_get_None_iff [of "streams w" ?p] by auto
  have keys: "map_keys (map_set ?p (length (heap w)) (streams w)) = map_keys (streams w)"
    using mem by (simp add: map_keys_set)
  have one: "count_list (map_keys (streams w)) ?p = 1"
    using mem assms(5) by (simp add: count_list_distinct)
  have r: "on_message e SpawnReturns (Text (PlatformField x)) (c, w)
           = configure e SpawnReturns (PlatformField x) (c, w)"
    using assms(1) by simp
  show ?thesis
    unfolding Let_def r configure_accepts [OF assms(4)] fst_conv snd_conv
    using assms(3) assms(5) keys one on_message_distinct [OF assms(5)] on_close_distinct [OF assms(5)]
      on_error_distinct [OF assms(5)]
    by (simp add: map_get_set_same)
qed

theorem C9_second_session_overwrites_witness:
  "streamOutput (fst (on_connection (snd demo_streaming))) = None
   \<and> map_get (streams (snd demo_streaming)) ''youtube'' = Some 0
   \<and> sent (fst demo_second) = [StreamingFrame ''youtube'']
   \<and> streams (snd demo_second) = [(''youtube'', 1)]
   \<and> count_list (map_keys (streams (snd demo_second))) ''youtube'' = 1"
proof -
  let ?cw = "on_connection (snd demo_streaming)"
  have h1: "streamOutput (fst ?cw) = None" by (simp add: on_connection_def)
  have h2: "map_get (streams (snd ?cw)) (or_default (Some ''youtube'') ''youtube'') = Some 0"
    by (simp add: on_connection_def demo_streaming_eq or_default_def map_get_def)
  have h3: "0 < length (heap (snd ?cw))" by (simp add: on_connection_def demo_streaming_eq)
  have h4: "credentials demo_env (or_default (Some ''youtube'') ''youtube'')
             = Credentials [''STREAM_KEY'' \<mapsto> ''abcd''] ''abcd''"
    by (simp add: or_default_def demo_credentials_youtube)
  have h5: "distinct (map_keys (streams (snd ?cw)))"
    by (simp add: on_connection_def demo_streaming_eq map_keys_def)
  have cw: "(fst ?cw, snd ?cw) = ?cw" by simp
  from C9_second_session_overwrites [OF h1 h2 h3 h4 h5, where sp' = SpawnReturns
      and m' = "Binary []" and c'' = "fst ?cw" and err = "[]" and k' = 0 and code = None]
  have "sent (fst demo_second) = sent (fst ?cw) @ [StreamingFrame ''youtube'']"
    unfolding Let_def cw demo_second_def [symmetric] by (simp add: or_default_def)
  then show ?thesis
    using h1 by (simp add: demo_second_eq demo_streaming_eq map_get_def map_keys_def)
qed

text \<open>
  C10. When a streaming connection for a platform closes while the registry entry of that
  platform holds another connection's supervisor, the entry is deleted all the same. (The
  supervisor of a streaming connection was started without an exception, so the child it
  holds, if any, has its streams.) The
  other supervisor is then missing from the registry and from the health report, although
  it still holds its child and \<^verbatim>\<open>isStreaming\<close> is true; its child is untouched (no end of
  input, no signal), and its fields are not cleared.
\<close>

theorem C10_close_deletes_overwritten_entry:
  assumes "streamOutput c1 = Some a1"
    and "map_get (streams w) (conn_platform c1) = Some a2" and "a2 \<noteq> a1"
    and "lookup (heap w) a2 = Some that" and "ffmpeg that = Some (Child k2)" and "isStreaming that"
    and "lookup (procs w) k2 = Some p2"
    and "\<forall>t. lookup (heap w) a1 = Some t \<longrightarrow> ffmpeg t \<noteq> Some (Child k2)"
    and "\<forall>t. lookup (heap w) a1 = Some t \<longrightarrow> ffmpeg t \<noteq> Some ChildWithoutStdio"
  shows "let w' = snd (on_close (c1, w))
         in map_get (streams w') (conn_platform c1) = None
          \<and> conn_platform c1 \<notin> set (report_streams (health w'))
          \<and> lookup (heap w') a2 = Some that
          \<and> lookup (procs w') k2 = Some p2
          \<and> filter (\<lambda>a. a = a2) (cleared w') = filter (\<lambda>a. a = a2) (cleared w)"
proof -
  let ?w = "log BrowserDisconnected w"
  have h: "lookup (heap (stop a1 ?w)) a2 = Some that"
    using assms(3,4) by (simp add: heap_stop_other)
  have "\<forall>t. lookup (heap ?w) a1 = Some t \<longrightarrow> ffmpeg t \<noteq> Some (Child k2)"
    using assms(8) by simp
  then have p: "lookup (procs (stop a1 ?w)) k2 = Some p2"
    using assms(7) by (simp add: procs_stop_other)
  have cl: "filter (\<lambda>a. a = a2) (cleared (stop a1 ?w)) = filter (\<lambda>a. a = a2) (cleared w)"
    using cleared_stop [of a1 ?w] assms(3) by auto
  have gone: "map_get (map_delete (conn_platform c1) (streams w)) (conn_platform c1) = None"
    by (rule map_get_delete_same)
  then have keys: "conn_platform c1 \<notin> set (map_keys (map_delete (conn_platform c1) (streams w)))"
    by (simp add: map_get_None_iff)
  have nt: "\<not> stop_throws a1 w"
    using assms(9) by (simp add: stop_throws_def split: option.splits)
  show ?thesis
    unfolding Let_def on_close_streaming [OF assms(1) nt] snd_conv
    using h p cl gone keys by (simp add: health_def)
qed

theorem C10_close_deletes_overwritten_entry_witness:
  "streamOutput (fst demo_streaming) = Some 0
   \<and> map_get (streams (snd demo_second)) (conn_platform (fst demo_streaming)) = Some 1
   \<and> health (snd (on_close (fst demo_streaming, snd demo_second)))
       = \<lparr>report_streams = [], activeStreams = 0\<rparr>
   \<and> map isStreaming (heap (snd (on_close (fst demo_streaming, snd demo_second)))) = [False, True]
   \<and> map ffmpeg (heap (snd (on_close (fst demo_streaming, snd demo_second)))) = [None, Some (Child 1)]
   \<and> map signals (procs (snd (on_close (fst demo_streaming, snd demo_second))))
       = [[''SIGTERM''], []]
   \<and> lookup (procs (snd (on_close (fst demo_streaming, snd demo_second)))) 1
       = Some (fresh_child 1 ''rtmp://a.rtmp.youtube.com/live2/abcd'')"
proof -
  let ?c = "fst demo_streaming" and ?w = "snd demo_second"
  have h1: "streamOutput ?c = Some 0" by (simp add: demo_streaming_eq)
  have h2: "map_get (streams ?w) (conn_platform ?c) = Some 1"
    by (simp add: demo_streaming_eq demo_second_eq map_get_def)
  have h3: "(1::nat) \<noteq> 0" by simp
  have h4: "lookup (heap ?w) 1 = Some (heap ?w ! 1)" by (simp add: demo_second_eq lookup_def)
  have h5: "ffmpeg (heap ?w ! 1) = Some (Child 1)" by (simp add: demo_second_eq)
  have h6: "isStreaming (heap ?w ! 1)" by (simp add: demo_second_eq)
  have h7: "lookup (procs ?w) 1 = Some (fresh_child 1 ''rtmp://a.rtmp.youtube.com/live2/abcd'')"
    by (simp add: demo_second_eq lookup_def)
  have h8: "\<forall>t. lookup (heap ?w) 0 = Some t \<longrightarrow> ffmpeg t \<noteq> Some (Child 1)"
    by (simp add: demo_second_eq lookup_def)
  have h9: "\<forall>t. lookup (heap ?w) 0 = Some t \<longrightarrow> ffmpeg t \<noteq> Some ChildWithoutStdio"
    by (simp add: demo_second_eq lookup_def)
  have nt: "\<not> stop_throws 0 ?w"
    by (simp add: demo_second_eq stop_throws_def lookup_def)
  from C10_close_deletes_overwritten_entry [OF h1 h2 h3 h4 h5 h6 h7 h8 h9]
  have p: "lookup (procs (snd (on_close (?c, ?w)))) 1
           = Some (fresh_child 1 ''rtmp://a.rtmp.youtube.com/live2/abcd'')"
    by (simp add: Let_def)
  have e: "snd (on_close (?c, ?w)) =
      \<lparr>heap = [\<lparr>platform = ''youtube'', streamKey = ''abcd'',
                streamUrl = ''rtmp://a.rtmp.youtube.com/live2'', ffmpeg = None,
                isStreaming = False\<rparr>,
               \<lparr>platform = ''youtube'', streamKey = ''abcd'',
                streamUrl = ''rtmp://a.rtmp.youtube.com/live2'', ffmpeg = Some (Child 1),
                isStreaming = True\<rparr>],
       procs = [(fresh_child 0 ''rtmp://a.rtmp.youtube.com/live2/abcd'')
                  \<lparr>stdin_writable := False, stdin_ended := True, signals := [''SIGTERM'']\<rparr>,
                fresh_child 1 ''rtmp://a.rtmp.youtube.com/live2/abcd''],
       streams = [],
       console = [BrowserConnected, ConfiguringStream ''youtube'',
                  StartingFfmpeg ''youtube'' ''rtmp://a.rtmp.youtube.com/live2'',
                  BrowserConnected, ConfiguringStream ''youtube'',
                  StartingFfmpeg ''youtube'' ''rtmp://a.rtmp.youtube.com/live2'',
                  BrowserDisconnected, StoppingFfmpeg ''youtube''],
       cleared = [0], crashed = False\<rparr>"
    by (simp add: on_close_streaming [OF h1 nt])
       (simp add: demo_streaming_eq demo_second_eq stop_def lookup_def log_def stdin_end_def
          kill_def clear_child_def set_child_def fresh_child_def)
  show ?thesis
    using h1 h2 p
    by (simp add: e health_def map_keys_def map_values_def fresh_child_def)
qed

end
